theory Spec2Isabelle
  imports Main "HOL-Library.Sublist"
begin

section \<open>Data model\<close>

text \<open>
  The enumerations of \<^verbatim>\<open>models/user.py\<close>, \<^verbatim>\<open>models/audit_log.py\<close> and
  \<^verbatim>\<open>models/document.py\<close>. The entity types carry the prefix \<open>ENT_\<close> because
  \<^verbatim>\<open>PATIENT\<close> is also a role.
\<close>

datatype UserRole = ADMIN | CLINIC_ADMIN | CLINIC_STAFF | PATIENT

datatype AuditAction =
  CREATE | UPDATE | DELETE | VIEW | DOWNLOAD | LOGIN | LOGOUT | UPLOAD | ASSIGN | PROCESS | EXPORT

datatype AuditEntityType =
  ENT_USER | ENT_PATIENT | ENT_DOCUMENT | ENT_CLINIC | ENT_EXTRACTION | ENT_SYSTEM

datatype DocumentType =
  LAB_REPORT | PRESCRIPTION | MEDICAL_RECORD | IMAGING_REPORT | DISCHARGE_SUMMARY | OTHER

datatype DocumentStatus = UPLOADED | PROCESSING | PROCESSED | FAILED

text \<open>
  What leaves a handler other than its result: an
  \<^verbatim>\<open>HTTPException(status_code, detail)\<close> that the handler raises (or the 422 that
  FastAPI raises when a \<^verbatim>\<open>Query(...)\<close> bound is violated), or the validation
  error of a response schema that cannot be built, with the fields it names.
\<close>

datatype http_error = HTTPException int string | ResponseValidationError "string list"

text \<open>
  Rows of the tables. Nullable columns are options. The attribute \<^verbatim>\<open>role\<close> of a
  loaded \<^verbatim>\<open>User\<close> is compared against the four enum members one after the other and the
  handlers keep a final \<^verbatim>\<open>else\<close>; \<open>None\<close> stands for a value that is none of the
  four members. Timestamps are seconds on the integer line. The column
  \<^verbatim>\<open>success\<close> of the audit table is declared with a string type, is written and
  compared with booleans, and is a \<open>bool\<close> here. Columns that no handler below reads
  are left out.
\<close>

record User =
  u_id :: int
  u_email :: string
  u_hashed_password :: string
  u_role :: "UserRole option"
  u_is_active :: bool

record Clinic =
  c_id :: int
  c_name :: string
  c_admin_user_id :: "int option"

record Patient =
  p_id :: int
  p_user_id :: "int option"
  p_clinic_id :: "int option"

record AuditLog =
  al_id :: int
  al_user_id :: "int option"
  al_action :: AuditAction
  al_entity_type :: AuditEntityType
  al_clinic_id :: "int option"
  al_patient_id :: "int option"
  al_description :: string
  al_success :: bool
  al_created_at :: int

record Document =
  d_id :: int
  d_patient_id :: "int option"
  d_clinic_id :: "int option"
  d_filename :: string
  d_original_filename :: string
  d_file_path :: string
  d_file_size :: int
  d_mime_type :: string
  d_document_type :: DocumentType
  d_status :: DocumentStatus
  d_notes :: "string option"

section \<open>Audit listing: \<^verbatim>\<open>routers/audit.py\<close>\<close>

text \<open>The optional query parameters of \<^verbatim>\<open>GET /audit/logs\<close>.\<close>

record AuditLogFilter =
  f_action :: "AuditAction option"
  f_entity_type :: "AuditEntityType option"
  f_user_id :: "int option"
  f_clinic_id :: "int option"
  f_patient_id :: "int option"
  f_date_from :: "int option"
  f_date_to :: "int option"
  f_success :: "bool option"

definition no_filters :: AuditLogFilter where
  "no_filters = \<lparr>f_action = None, f_entity_type = None, f_user_id = None, f_clinic_id = None,
     f_patient_id = None, f_date_from = None, f_date_to = None, f_success = None\<rparr>"

text \<open>
  \<^verbatim>\<open>db.query(Clinic).filter(Clinic.admin_user_id == current_user.id).first()\<close>:
  the first clinic row administered by the user, if any.
\<close>

definition clinic_of_admin :: "Clinic list \<Rightarrow> User \<Rightarrow> Clinic option" where
  "clinic_of_admin clinics u = find (\<lambda>c. c_admin_user_id c = Some (u_id u)) clinics"

text \<open>
  The role branch of \<^verbatim>\<open>get_audit_logs\<close> (lines 44 to 66): the predicate added to the
  query, or the 403 of the final \<^verbatim>\<open>else\<close>. A comparison of a NULL column with a value
  selects nothing, as \<open>None = Some v\<close> is false.
\<close>

definition role_filter :: "Clinic list \<Rightarrow> User \<Rightarrow> http_error + (AuditLog \<Rightarrow> bool)" where
  "role_filter clinics u =
     (if u_role u = Some ADMIN then Inr (\<lambda>e. True)
      else if u_role u = Some CLINIC_ADMIN \<or> u_role u = Some CLINIC_STAFF then
        (case clinic_of_admin clinics u of
           Some c \<Rightarrow> Inr (\<lambda>e. al_clinic_id e = Some (c_id c))
         | None \<Rightarrow> Inr (\<lambda>e. al_user_id e = Some (u_id u)))
      else if u_role u = Some PATIENT then
        Inr (\<lambda>e. al_user_id e = Some (u_id u) \<and>
                  (al_entity_type e = ENT_USER \<or> al_entity_type e = ENT_DOCUMENT))
      else Inl (HTTPException 403 ''Access denied''))"

text \<open>
  The caller filters (lines 68 to 84). \<^verbatim>\<open>if user_id:\<close> is Python truthiness: an
  integer parameter that is absent or 0 adds no condition. Enum members and datetimes are
  always truthy; \<^verbatim>\<open>success\<close> is tested with \<^verbatim>\<open>is not None\<close>.
\<close>

definition int_cond :: "int option \<Rightarrow> int option \<Rightarrow> bool" where
  "int_cond param col = (case param of None \<Rightarrow> True | Some v \<Rightarrow> v = 0 \<or> col = Some v)"

definition caller_filter :: "AuditLogFilter \<Rightarrow> AuditLog \<Rightarrow> bool" where
  "caller_filter f e =
     ((case f_action f of None \<Rightarrow> True | Some a \<Rightarrow> al_action e = a) \<and>
      (case f_entity_type f of None \<Rightarrow> True | Some t \<Rightarrow> al_entity_type e = t) \<and>
      int_cond (f_user_id f) (al_user_id e) \<and>
      int_cond (f_clinic_id f) (al_clinic_id e) \<and>
      int_cond (f_patient_id f) (al_patient_id e) \<and>
      (case f_date_from f of None \<Rightarrow> True | Some d \<Rightarrow> d \<le> al_created_at e) \<and>
      (case f_date_to f of None \<Rightarrow> True | Some d \<Rightarrow> al_created_at e \<le> d) \<and>
      (case f_success f of None \<Rightarrow> True | Some s \<Rightarrow> al_success e = s))"

text \<open>The query after both groups of filters: the rows that \<^verbatim>\<open>query.count()\<close> counts.\<close>

definition audit_query ::
  "Clinic list \<Rightarrow> AuditLog list \<Rightarrow> User \<Rightarrow> AuditLogFilter \<Rightarrow> http_error + AuditLog list" where
  "audit_query clinics logs u f =
     (case role_filter clinics u of
        Inl err \<Rightarrow> Inl err
      | Inr visible \<Rightarrow> Inr (filter (\<lambda>e. visible e \<and> caller_filter f e) logs))"

text \<open>
  \<^verbatim>\<open>order_by(desc(created_at)).offset(offset).limit(per_page)\<close>. Rows with equal
  timestamps come in the order the store gives them; the model keeps the table order.
\<close>

definition order_desc :: "AuditLog list \<Rightarrow> AuditLog list" where
  "order_desc xs = sort_key (\<lambda>e. - al_created_at e) xs"

definition paginate :: "int \<Rightarrow> int \<Rightarrow> 'a list \<Rightarrow> 'a list" where
  "paginate page per_page xs = take (nat per_page) (drop (nat ((page - 1) * per_page)) xs)"

record AuditLogListResponse =
  r_logs :: "AuditLog list"
  r_total :: int
  r_page :: int
  r_per_page :: int

definition get_audit_logs ::
  "Clinic list \<Rightarrow> AuditLog list \<Rightarrow> User \<Rightarrow> int \<Rightarrow> int \<Rightarrow> AuditLogFilter
     \<Rightarrow> http_error + AuditLogListResponse" where
  "get_audit_logs clinics logs current_user page per_page f =
     (if page < 1 \<or> per_page < 1 \<or> 100 < per_page
      then Inl (HTTPException 422 ''Unprocessable Entity'')
      else
        (case audit_query clinics logs current_user f of
           Inl err \<Rightarrow> Inl err
         | Inr q \<Rightarrow>
             Inr \<lparr>r_logs = paginate page per_page (order_desc q),
                  r_total = int (length q), r_page = page, r_per_page = per_page\<rparr>))"

section \<open>Documents: \<^verbatim>\<open>routers/documents.py\<close>\<close>

text \<open>
  \<^verbatim>\<open>save_upload_file\<close> and \<^verbatim>\<open>delete_file\<close> live in \<^verbatim>\<open>utils/file_handler.py\<close>,
  which is not part of the sources at hand. The outcome of saving is therefore an input
  of the model: the triple \<^verbatim>\<open>(file_path, unique_filename, file_size)\<close>, an
  \<^verbatim>\<open>HTTPException\<close> that the handler re-raises, or another exception whose text
  goes into a 500. Deleting a file removes its path from the list of stored files.
\<close>

datatype save_result =
  Saved string string int
| SaveHTTPError http_error
| SaveFailed string

record UploadFile =
  uf_filename :: "string option"
  uf_content_type :: "string option"

record store =
  st_clinics :: "Clinic list"
  st_patients :: "Patient list"
  st_documents :: "Document list"
  st_files :: "string list"

text \<open>The primary key that the database gives to a new row.\<close>

definition next_id :: "Document list \<Rightarrow> int" where
  "next_id docs = fold max (map d_id docs) 0 + 1"

text \<open>
  \<^verbatim>\<open>DocumentResponse.from_orm(document)\<close> builds the response schema of
  \<^verbatim>\<open>schemas/document.py\<close> (lines 63 to 85) from the attributes of the row. The
  schema declares \<^verbatim>\<open>clinic_id: int\<close>, and it declares
  \<^verbatim>\<open>file_hash: Optional[str]\<close> without a default, while the class
  \<^verbatim>\<open>Document\<close> of \<^verbatim>\<open>models/document.py\<close> has no attribute
  \<^verbatim>\<open>file_hash\<close>. The validation therefore fails for every row; the fields below
  are the ones it is certain to name.
\<close>

definition DocumentResponse_from_orm :: "Document \<Rightarrow> http_error + Document" where
  "DocumentResponse_from_orm document =
     Inl (ResponseValidationError
       ((if d_clinic_id document = None then [''clinic_id''] else []) @ [''file_hash'']))"

text \<open>
  \<^verbatim>\<open>upload_document\<close> (lines 23 to 88). The principal has already passed the
  dependency \<^verbatim>\<open>require_clinic_access\<close>. \<^verbatim>\<open>if not clinic_id\<close> and
  \<^verbatim>\<open>if patient_id\<close> are truthiness tests: \<^verbatim>\<open>None\<close> and 0 are false.
  The row is added and committed before the response is built, so the store keeps it
  when the response fails. The result is the response or the error, together with the
  store afterwards.
\<close>

definition resolve_upload_clinic :: "Clinic list \<Rightarrow> User \<Rightarrow> int option" where
  "resolve_upload_clinic clinics u =
     (if u_role u = Some CLINIC_ADMIN \<or> u_role u = Some CLINIC_STAFF then
        (case clinic_of_admin clinics u of
           None \<Rightarrow> Some 1
         | Some c \<Rightarrow> Some (c_id c))
      else None)"

definition upload_document ::
  "save_result \<Rightarrow> UploadFile \<Rightarrow> int option \<Rightarrow> DocumentType option \<Rightarrow> string option
     \<Rightarrow> User \<Rightarrow> store \<Rightarrow> (http_error + string \<times> Document) \<times> store" where
  "upload_document saved file patient_id document_type notes current_user db =
     (case saved of
        SaveHTTPError e \<Rightarrow> (Inl e, db)
      | SaveFailed msg \<Rightarrow> (Inl (HTTPException 500 (''Upload failed: '' @ msg)), db)
      | Saved file_path unique_filename file_size \<Rightarrow>
          (let db1 = db\<lparr>st_files := file_path # st_files db\<rparr> in
           case resolve_upload_clinic (st_clinics db) current_user of
             None \<Rightarrow> (Inl (HTTPException 400 ''Cannot determine clinic association''), db1)
           | Some clinic_id \<Rightarrow>
               if clinic_id = 0
               then (Inl (HTTPException 400 ''Cannot determine clinic association''), db1)
               else if (case patient_id of None \<Rightarrow> False | Some pid \<Rightarrow> pid \<noteq> 0) \<and>
                       find (\<lambda>p. Some (p_id p) = patient_id \<and> p_clinic_id p = Some clinic_id)
                         (st_patients db) = None
               then (Inl (HTTPException 404 ''Patient not found in your clinic''),
                     db1\<lparr>st_files := removeAll file_path (st_files db1)\<rparr>)
               else
                 (let document = \<lparr>d_id = next_id (st_documents db),
                        d_patient_id = patient_id, d_clinic_id = Some clinic_id,
                        d_filename = unique_filename,
                        d_original_filename =
                          (case uf_filename file of None \<Rightarrow> ''unknown''
                           | Some n \<Rightarrow> if n = [] then ''unknown'' else n),
                        d_file_path = file_path, d_file_size = file_size,
                        d_mime_type =
                          (case uf_content_type file of None \<Rightarrow> ''application/octet-stream''
                           | Some m \<Rightarrow> if m = [] then ''application/octet-stream'' else m),
                        d_document_type = (case document_type of None \<Rightarrow> OTHER | Some t \<Rightarrow> t),
                        d_status = UPLOADED, d_notes = notes\<rparr>;
                      db2 = db1\<lparr>st_documents := st_documents db1 @ [document]\<rparr>
                  in case DocumentResponse_from_orm document of
                       Inl err \<Rightarrow> (Inl err, db2)
                     | Inr response \<Rightarrow>
                         (Inr (''Document uploaded successfully'', response), db2))))"

text \<open>
  The permission check shared by \<^verbatim>\<open>get_document\<close> (lines 157 to 166) and
  \<^verbatim>\<open>download_document\<close> (lines 183 to 192).
\<close>

definition check_document_access :: "store \<Rightarrow> User \<Rightarrow> Document \<Rightarrow> http_error option" where
  "check_document_access db current_user document =
     (if u_role current_user = Some PATIENT then
        (case find (\<lambda>p. p_user_id p = Some (u_id current_user)) (st_patients db) of
           None \<Rightarrow> Some (HTTPException 403 ''Access denied'')
         | Some patient \<Rightarrow>
             if d_patient_id document \<noteq> Some (p_id patient)
             then Some (HTTPException 403 ''Access denied'') else None)
      else if u_role current_user = Some CLINIC_ADMIN \<or> u_role current_user = Some CLINIC_STAFF then
        (case clinic_of_admin (st_clinics db) current_user of
           Some clinic \<Rightarrow>
             if d_clinic_id document \<noteq> Some (c_id clinic)
             then Some (HTTPException 403 ''Access denied'') else None
         | None \<Rightarrow> None)
      else None)"

definition get_document :: "store \<Rightarrow> User \<Rightarrow> int \<Rightarrow> http_error + Document" where
  "get_document db current_user document_id =
     (case find (\<lambda>d. d_id d = document_id) (st_documents db) of
        None \<Rightarrow> Inl (HTTPException 404 ''Document not found'')
      | Some document \<Rightarrow>
          (case check_document_access db current_user document of
             Some err \<Rightarrow> Inl err
           | None \<Rightarrow> DocumentResponse_from_orm document))"

text \<open>
  \<^verbatim>\<open>FileResponse(path, filename, media_type)\<close>; \<^verbatim>\<open>os.path.exists\<close> is
  membership in the stored files.
\<close>

record FileResponse =
  fr_path :: string
  fr_filename :: string
  fr_media_type :: string

definition download_document :: "store \<Rightarrow> User \<Rightarrow> int \<Rightarrow> http_error + FileResponse" where
  "download_document db current_user document_id =
     (case find (\<lambda>d. d_id d = document_id) (st_documents db) of
        None \<Rightarrow> Inl (HTTPException 404 ''Document not found'')
      | Some document \<Rightarrow>
          (case check_document_access db current_user document of
             Some err \<Rightarrow> Inl err
           | None \<Rightarrow>
               if d_file_path document \<notin> set (st_files db)
               then Inl (HTTPException 404 ''File not found on server'')
               else Inr \<lparr>fr_path = d_file_path document,
                         fr_filename = d_original_filename document,
                         fr_media_type = d_mime_type document\<rparr>))"

text \<open>\<^verbatim>\<open>get_documents\<close> (lines 91 to 142): role scope, caller filters, pagination.\<close>

definition document_scope :: "store \<Rightarrow> User \<Rightarrow> http_error + (Document \<Rightarrow> bool)" where
  "document_scope db current_user =
     (if u_role current_user = Some PATIENT then
        (case find (\<lambda>p. p_user_id p = Some (u_id current_user)) (st_patients db) of
           None \<Rightarrow> Inl (HTTPException 404 ''Patient profile not found'')
         | Some patient \<Rightarrow> Inr (\<lambda>d. d_patient_id d = Some (p_id patient)))
      else if u_role current_user = Some CLINIC_ADMIN \<or> u_role current_user = Some CLINIC_STAFF then
        (case clinic_of_admin (st_clinics db) current_user of
           Some clinic \<Rightarrow> Inr (\<lambda>d. d_clinic_id d = Some (c_id clinic))
         | None \<Rightarrow> Inr (\<lambda>d. True))
      else Inr (\<lambda>d. True))"

definition document_filter ::
  "int option \<Rightarrow> DocumentStatus option \<Rightarrow> DocumentType option \<Rightarrow> Document \<Rightarrow> bool" where
  "document_filter patient_id status document_type d =
     (int_cond patient_id (d_patient_id d) \<and>
      (case status of None \<Rightarrow> True | Some s \<Rightarrow> d_status d = s) \<and>
      (case document_type of None \<Rightarrow> True | Some t \<Rightarrow> d_document_type d = t))"

text \<open>The rows of the listing after role scope and caller filters, which \<^verbatim>\<open>query.count()\<close> counts.\<close>

definition documents_query ::
  "store \<Rightarrow> User \<Rightarrow> int option \<Rightarrow> DocumentStatus option \<Rightarrow> DocumentType option
     \<Rightarrow> http_error + Document list" where
  "documents_query db current_user patient_id status document_type =
     (case document_scope db current_user of
        Inl err \<Rightarrow> Inl err
      | Inr scope \<Rightarrow>
          Inr (filter (\<lambda>d. scope d \<and> document_filter patient_id status document_type d)
                 (st_documents db)))"

text \<open>
  The list comprehension \<^verbatim>\<open>[DocumentResponse.from_orm(doc) for doc in documents]\<close>:
  the first row that fails ends it.
\<close>

fun from_orm_all :: "Document list \<Rightarrow> http_error + Document list" where
  "from_orm_all [] = Inr []"
| "from_orm_all (doc # docs) =
     (case DocumentResponse_from_orm doc of
        Inl err \<Rightarrow> Inl err
      | Inr r \<Rightarrow> (case from_orm_all docs of Inl err \<Rightarrow> Inl err | Inr rs \<Rightarrow> Inr (r # rs)))"

text \<open>
  The schema \<^verbatim>\<open>DocumentListResponse\<close> (lines 120 to 126) has six required fields.
  The handler calls it with \<^verbatim>\<open>documents\<close>, \<^verbatim>\<open>total\<close>, \<^verbatim>\<open>page\<close> and
  \<^verbatim>\<open>per_page\<close> only, so the construction fails on the two others.
\<close>

record DocumentListResponse =
  dl_documents :: "Document list"
  dl_total :: int
  dl_page :: int
  dl_per_page :: int
  dl_has_next :: bool
  dl_has_previous :: bool

definition DocumentListResponse_init ::
  "Document list \<Rightarrow> int \<Rightarrow> int \<Rightarrow> int \<Rightarrow> http_error + DocumentListResponse" where
  "DocumentListResponse_init documents total_count page per_page =
     Inl (ResponseValidationError [''has_next'', ''has_previous''])"

definition get_documents ::
  "store \<Rightarrow> User \<Rightarrow> int \<Rightarrow> int \<Rightarrow> int option \<Rightarrow> DocumentStatus option \<Rightarrow> DocumentType option
     \<Rightarrow> http_error + DocumentListResponse" where
  "get_documents db current_user page per_page patient_id status document_type =
     (if page < 1 \<or> per_page < 1 \<or> 100 < per_page
      then Inl (HTTPException 422 ''Unprocessable Entity'')
      else
        (case documents_query db current_user patient_id status document_type of
           Inl err \<Rightarrow> Inl err
         | Inr q \<Rightarrow>
             (case from_orm_all (paginate page per_page q) of
                Inl err \<Rightarrow> Inl err
              | Inr documents \<Rightarrow>
                  DocumentListResponse_init documents (int (length q)) page per_page)))"

section \<open>Request pipeline: \<^verbatim>\<open>middleware/secuirty.py\<close>\<close>

text \<open>
  A request as the middlewares read it. Header names are looked up without regard to
  case, so the table is keyed by the lower-case name. \<^verbatim>\<open>get_client_ip\<close> is in
  \<^verbatim>\<open>utils/security.py\<close>, which is not among the sources; its result is the field
  \<open>rq_client\<close>.
\<close>

record Request =
  rq_method :: string
  rq_path :: string
  rq_headers :: "string \<rightharpoonup> string"
  rq_client :: string

record Response =
  rs_status :: int
  rs_detail :: string
  rs_headers :: "string \<rightharpoonup> string"

text \<open>
  \<^verbatim>\<open>JSONResponse(status_code=..., content={"detail": ...})\<close>; of the headers that the
  framework sets on it only the content type is kept.
\<close>

definition JSONResponse :: "int \<Rightarrow> string \<Rightarrow> Response" where
  "JSONResponse code detail =
     \<lparr>rs_status = code, rs_detail = detail,
      rs_headers = [''content-type'' \<mapsto> ''application/json'']\<rparr>"

text \<open>
  Modelled from the spec: the rate limiter \<^verbatim>\<open>rate_limiter.is_allowed\<close> of
  \<^verbatim>\<open>utils/security.py\<close> is missing from the sources. Section 4.3 of the specification
  gives the algorithm: if no bucket exists for the key or
  \<^verbatim>\<open>now - window_start >= window_seconds\<close>, start a fresh bucket with count 1 and
  admit; otherwise increment the count and admit iff the new count is at most
  \<^verbatim>\<open>max_requests\<close>. The clock is an argument.
\<close>

record RateBucket =
  window_start :: int
  count :: int

type_synonym buckets = "string \<rightharpoonup> RateBucket"

definition is_allowed :: "int \<Rightarrow> string \<Rightarrow> int \<Rightarrow> int \<Rightarrow> buckets \<Rightarrow> bool \<times> buckets" where
  "is_allowed now client_key max_requests window_seconds b =
     (case b client_key of
        None \<Rightarrow> (True, b(client_key \<mapsto> \<lparr>window_start = now, count = 1\<rparr>))
      | Some bk \<Rightarrow>
          if window_seconds \<le> now - window_start bk
          then (True, b(client_key \<mapsto> \<lparr>window_start = now, count = 1\<rparr>))
          else (count bk + 1 \<le> max_requests, b(client_key \<mapsto> bk\<lparr>count := count bk + 1\<rparr>)))"

text \<open>
  The per-endpoint limits of \<^verbatim>\<open>SecurityMiddleware.dispatch\<close> (lines 17 to 26):
  \<^verbatim>\<open>(max_requests, window)\<close>.
\<close>

definition rate_tier :: "string \<Rightarrow> int \<times> int" where
  "rate_tier path =
     (if prefix ''/documents/upload'' path then (10, 3600)
      else if prefix ''/auth/'' path then (5, 3600)
      else (1000, 3600))"

text \<open>The text \<^verbatim>\<open>default-src 'self'\<close>; the closing quote is written as a character.\<close>

definition csp_same_origin :: string where
  "csp_same_origin = ''default-src 'self'' @ [CHR 0x27]"

definition add_security_headers :: "Response \<Rightarrow> Response" where
  "add_security_headers response =
     response\<lparr>rs_headers := (rs_headers response)
       (''X-Content-Type-Options'' \<mapsto> ''nosniff'',
        ''X-Frame-Options'' \<mapsto> ''DENY'',
        ''X-XSS-Protection'' \<mapsto> ''1; mode=block'',
        ''Strict-Transport-Security'' \<mapsto> ''max-age=31536000; includeSubDomains'',
        ''Content-Security-Policy'' \<mapsto> csp_same_origin)\<rparr>"

text \<open>
  \<^verbatim>\<open>SecurityMiddleware.dispatch\<close> (lines 11 to 46). The limiter is the
  module-level object \<^verbatim>\<open>rate_limiter\<close> imported from the missing
  \<^verbatim>\<open>utils/security.py\<close>: its method \<^verbatim>\<open>is_allowed(client_ip, max_requests, window)\<close>
  is the argument \<open>limiter\<close>, acting on the limiter's own state. The rest of the stack,
  \<^verbatim>\<open>call_next\<close>, is a function on a state of its own, so that a result with that
  state unchanged shows that nothing downstream ran.
\<close>

definition SecurityMiddleware_dispatch ::
  "(string \<Rightarrow> int \<Rightarrow> int \<Rightarrow> 'b \<Rightarrow> bool \<times> 'b) \<Rightarrow> Request \<Rightarrow> (Request \<Rightarrow> 's \<Rightarrow> Response \<times> 's)
     \<Rightarrow> 'b \<times> 's \<Rightarrow> Response \<times> ('b \<times> 's)" where
  "SecurityMiddleware_dispatch limiter request call_next st =
     (case st of (b, s) \<Rightarrow>
        (case rate_tier (rq_path request) of (max_requests, window) \<Rightarrow>
           (case limiter (rq_client request) max_requests window b of
              (allowed, b') \<Rightarrow>
                if \<not> allowed then (JSONResponse 429 ''Rate limit exceeded'', (b', s))
                else
                  (case call_next request s of
                     (response, s') \<Rightarrow> (add_security_headers response, (b', s'))))))"

text \<open>
  \<^verbatim>\<open>CSRFMiddleware.dispatch\<close> (lines 52 to 71). \<^verbatim>\<open>if not auth_header\<close> holds
  for a missing header and for a header whose value is the empty string.
\<close>

definition CSRFMiddleware_dispatch ::
  "Request \<Rightarrow> (Request \<Rightarrow> 's \<Rightarrow> Response \<times> 's) \<Rightarrow> 's \<Rightarrow> Response \<times> 's" where
  "CSRFMiddleware_dispatch request call_next s =
     (if rq_method request \<in> set [''GET'', ''HEAD'', ''OPTIONS''] then call_next request s
      else if prefix ''/auth/'' (rq_path request) then call_next request s
      else
        (case rq_headers request ''authorization'' of
           None \<Rightarrow>
             (JSONResponse 403 ''CSRF protection: Authorization header required'', s)
         | Some auth_header \<Rightarrow>
             if auth_header = []
             then (JSONResponse 403 ''CSRF protection: Authorization header required'', s)
             else call_next request s))"

section \<open>Settings and tokens: \<^verbatim>\<open>config.py\<close>, \<^verbatim>\<open>routers/auth.py\<close>\<close>

text \<open>
  \<^verbatim>\<open>Settings(BaseSettings)\<close> (lines 7 to 17): two required strings, two fields with
  defaults, and \<^verbatim>\<open>env_file = ".env"\<close> with no policy for extra entries. The process
  environment and the \<^verbatim>\<open>.env\<close> file are tables of names and values; names are
  matched without regard to case, so the tables are keyed by the lower-case name. A
  field is read from the environment first and from the file second. Other variables
  of the environment are not looked at. An entry of the file with another name and a
  value that is not empty is an extra input, which the class forbids. The conversion of
  a text to an integer is the library's and is an argument. Everything that is missing,
  does not convert or is extra is reported in one error.
\<close>

record Settings =
  database_url :: string
  secret_key :: string
  algorithm :: string
  access_token_expire_minutes :: int

type_synonym env_table = "(string \<times> string) list"

definition settings_fields :: "string list" where
  "settings_fields =
     [''database_url'', ''secret_key'', ''algorithm'', ''access_token_expire_minutes'']"

datatype settings_error = ValidationError "string list"

definition env_lookup :: "env_table \<Rightarrow> env_table \<Rightarrow> string \<Rightarrow> string option" where
  "env_lookup env dotenv name =
     (case map_of env name of Some v \<Rightarrow> Some v | None \<Rightarrow> map_of dotenv name)"

definition dotenv_extras :: "env_table \<Rightarrow> string list" where
  "dotenv_extras dotenv =
     map fst (filter (\<lambda>entry. fst entry \<notin> set settings_fields \<and> snd entry \<noteq> []) dotenv)"

definition Settings_init ::
  "(string \<Rightarrow> int option) \<Rightarrow> env_table \<Rightarrow> env_table \<Rightarrow> settings_error + Settings" where
  "Settings_init to_int env dotenv =
     (let errs =
        (if env_lookup env dotenv ''database_url'' = None then [''database_url''] else []) @
        (if env_lookup env dotenv ''secret_key'' = None then [''secret_key''] else []) @
        (case env_lookup env dotenv ''access_token_expire_minutes'' of
           None \<Rightarrow> []
         | Some v \<Rightarrow> if to_int v = None then [''access_token_expire_minutes''] else []) @
        dotenv_extras dotenv
      in case (env_lookup env dotenv ''database_url'', env_lookup env dotenv ''secret_key'') of
           (Some url, Some key) \<Rightarrow>
             if errs \<noteq> [] then Inl (ValidationError errs)
             else Inr
               \<lparr>database_url = url,
                secret_key = key,
                algorithm = (case env_lookup env dotenv ''algorithm'' of
                               None \<Rightarrow> ''HS256'' | Some a \<Rightarrow> a),
                access_token_expire_minutes =
                  (case env_lookup env dotenv ''access_token_expire_minutes'' of
                     None \<Rightarrow> 30
                   | Some v \<Rightarrow> (case to_int v of Some n \<Rightarrow> n | None \<Rightarrow> 30))\<rparr>
         | _ \<Rightarrow> Inl (ValidationError errs))"

text \<open>
  \<^verbatim>\<open>settings = Settings()\<close> runs when \<^verbatim>\<open>config.py\<close> is imported, and
  \<^verbatim>\<open>main.py\<close> imports it (through \<^verbatim>\<open>database.py\<close>) before it creates the
  application: an error there ends the process before anything is served. With the
  settings in hand the start-up goes on to the database engine, the tables and the
  upload directory; these steps can fail too and are not part of the model, which stops
  at \<open>Configured\<close>.
\<close>

datatype process = Crashed settings_error | Configured Settings

definition startup :: "(string \<Rightarrow> int option) \<Rightarrow> env_table \<Rightarrow> env_table \<Rightarrow> process" where
  "startup to_int env dotenv =
     (case Settings_init to_int env dotenv of Inl e \<Rightarrow> Crashed e | Inr s \<Rightarrow> Configured s)"

text \<open>
  Modelled from the spec: \<^verbatim>\<open>create_access_token\<close> and \<^verbatim>\<open>verify_token\<close> are in
  \<^verbatim>\<open>utils/auth.py\<close>, which is missing from the sources. Section 4.2 of the
  specification: a token carries the subject, the issue time and the issue time plus the
  time to live, and is signed with the process-wide secret key loaded once at start-up,
  which is \<^verbatim>\<open>settings.secret_key\<close>; issuing fails with
  \<^verbatim>\<open>ConfigurationError\<close> without a key; verifying fails with \<^verbatim>\<open>TokenMalformed\<close>
  if the text does not parse, \<^verbatim>\<open>TokenInvalid\<close> if the signature does not match,
  \<^verbatim>\<open>TokenExpired\<close> if the current time exceeds the expiry, and yields the subject
  otherwise. The specification fixes no signature scheme: \<open>sign\<close> is an argument. A
  bearer text either parses into payload and signature or does not. Times are seconds.
\<close>

record TokenPayload =
  tk_subject :: string
  tk_issued_at :: int
  tk_expires_at :: int

datatype 'g bearer = Unparseable string | Encoded TokenPayload 'g

datatype token_error = ConfigurationError | TokenMalformed | TokenInvalid | TokenExpired

definition create_access_token ::
  "(string \<Rightarrow> TokenPayload \<Rightarrow> 'g) \<Rightarrow> string \<Rightarrow> int \<Rightarrow> string \<Rightarrow> int \<Rightarrow> 'g bearer" where
  "create_access_token sign key now subject expires_delta =
     (let payload = \<lparr>tk_subject = subject, tk_issued_at = now,
                      tk_expires_at = now + expires_delta\<rparr>
      in Encoded payload (sign key payload))"

definition issue ::
  "(string \<Rightarrow> TokenPayload \<Rightarrow> 'g) \<Rightarrow> string option \<Rightarrow> int \<Rightarrow> string \<Rightarrow> int
     \<Rightarrow> token_error + 'g bearer" where
  "issue sign key now subject ttl =
     (case key of
        None \<Rightarrow> Inl ConfigurationError
      | Some k \<Rightarrow> Inr (create_access_token sign k now subject ttl))"

definition verify_token ::
  "(string \<Rightarrow> TokenPayload \<Rightarrow> 'g) \<Rightarrow> string \<Rightarrow> int \<Rightarrow> 'g bearer \<Rightarrow> token_error + string" where
  "verify_token sign key now token =
     (case token of
        Unparseable _ \<Rightarrow> Inl TokenMalformed
      | Encoded payload sg \<Rightarrow>
          if sg \<noteq> sign key payload then Inl TokenInvalid
          else if tk_expires_at payload < now then Inl TokenExpired
          else Inr (tk_subject payload))"

text \<open>
  \<^verbatim>\<open>login\<close> (lines 63 to 96). \<^verbatim>\<open>verify_password\<close> is in the missing
  \<^verbatim>\<open>utils/auth.py\<close> too and is an argument. \<^verbatim>\<open>timedelta(minutes=m)\<close> is
  \<open>60 * m\<close> seconds. The source calls
  \<^verbatim>\<open>create_access_token(data={"sub": user.email}, expires_delta=...)\<close>; the key and
  the clock that the modelled function takes are the settings' key and the time of the
  call.
\<close>

record 'g TokenResponse =
  access_token :: "'g bearer"
  token_type :: string
  expires_in :: int
  tr_user :: User

definition login ::
  "Settings \<Rightarrow> (string \<Rightarrow> TokenPayload \<Rightarrow> 'g) \<Rightarrow> (string \<Rightarrow> string \<Rightarrow> bool) \<Rightarrow> int \<Rightarrow> User list
     \<Rightarrow> string \<Rightarrow> string \<Rightarrow> http_error + 'g TokenResponse" where
  "login settings sign verify_password now users username password =
     (case find (\<lambda>u. u_email u = username) users of
        None \<Rightarrow> Inl (HTTPException 401 ''Incorrect email or password'')
      | Some user \<Rightarrow>
          if \<not> verify_password password (u_hashed_password user)
          then Inl (HTTPException 401 ''Incorrect email or password'')
          else if \<not> u_is_active user then Inl (HTTPException 400 ''Inactive user'')
          else
            (let access_token_expires = 60 * access_token_expire_minutes settings
             in Inr \<lparr>access_token =
                       create_access_token sign (secret_key settings) now (u_email user)
                         access_token_expires,
                     token_type = ''bearer'',
                     expires_in = access_token_expire_minutes settings * 60,
                     tr_user = user\<rparr>))"

section \<open>Example data\<close>

text \<open>
  A small database used to run the handlers: two clinics with their administrators, a
  staff member without a clinic row, a patient, and a user whose role is not one of the
  four.
\<close>

definition demo_clinics :: "Clinic list" where
  "demo_clinics =
     [\<lparr>c_id = 7, c_name = ''North'', c_admin_user_id = Some 1\<rparr>,
      \<lparr>c_id = 9, c_name = ''South'', c_admin_user_id = Some 2\<rparr>]"

definition demo_user :: "int \<Rightarrow> UserRole option \<Rightarrow> User" where
  "demo_user i r =
     \<lparr>u_id = i, u_email = ''user@example.org'', u_hashed_password = ''x'',
      u_role = r, u_is_active = True\<rparr>"

definition demo_log :: "int \<Rightarrow> int option \<Rightarrow> AuditAction \<Rightarrow> AuditEntityType \<Rightarrow> int option \<Rightarrow> int \<Rightarrow> AuditLog" where
  "demo_log i uid a t cid at =
     \<lparr>al_id = i, al_user_id = uid, al_action = a, al_entity_type = t, al_clinic_id = cid,
      al_patient_id = None, al_description = ''entry'', al_success = True, al_created_at = at\<rparr>"

definition demo_logs :: "AuditLog list" where
  "demo_logs =
     [demo_log 1 (Some 1) CREATE ENT_PATIENT (Some 7) 100,
      demo_log 2 (Some 5) VIEW ENT_DOCUMENT (Some 7) 200,
      demo_log 3 (Some 3) UPLOAD ENT_DOCUMENT (Some 9) 300,
      demo_log 4 None LOGIN ENT_USER None 400]"

definition demo_document :: Document where
  "demo_document =
     \<lparr>d_id = 40, d_patient_id = None, d_clinic_id = Some 9, d_filename = ''f40.pdf'',
      d_original_filename = ''scan.pdf'', d_file_path = ''uploads/documents/f40.pdf'',
      d_file_size = 1024, d_mime_type = ''application/pdf'', d_document_type = LAB_REPORT,
      d_status = UPLOADED, d_notes = None\<rparr>"

definition demo_store :: store where
  "demo_store =
     \<lparr>st_clinics = demo_clinics,
      st_patients = [\<lparr>p_id = 11, p_user_id = Some 5, p_clinic_id = Some 9\<rparr>],
      st_documents = [demo_document], st_files = [''uploads/documents/f40.pdf'']\<rparr>"

definition demo_request :: "string \<Rightarrow> string \<Rightarrow> (string \<rightharpoonup> string) \<Rightarrow> Request" where
  "demo_request m p h = \<lparr>rq_method = m, rq_path = p, rq_headers = h, rq_client = ''10.0.0.1''\<rparr>"

text \<open>A downstream handler that answers 200 and counts how often it ran.\<close>

definition demo_handler :: "Request \<Rightarrow> nat \<Rightarrow> Response \<times> nat" where
  "demo_handler request n =
     (\<lparr>rs_status = 200, rs_detail = ''ok'', rs_headers = Map.empty\<rparr>, Suc n)"

text \<open>An environment with the two required fields, and the settings it gives.\<close>

definition demo_env :: env_table where
  "demo_env = [(''database_url'', ''sqlite:///app.db''), (''secret_key'', ''k1'')]"

definition demo_settings :: Settings where
  "demo_settings = \<lparr>database_url = ''sqlite:///app.db'', secret_key = ''k1'',
     algorithm = ''HS256'', access_token_expire_minutes = 30\<rparr>"

text \<open>A symbolic signature: the key together with the signed payload.\<close>

definition demo_sign :: "string \<Rightarrow> TokenPayload \<Rightarrow> string \<times> TokenPayload" where
  "demo_sign key payload = (key, payload)"

text \<open>The sequence of calls of one client on the limiter, at the given times.\<close>

fun calls :: "int list \<Rightarrow> string \<Rightarrow> int \<Rightarrow> int \<Rightarrow> buckets \<Rightarrow> bool list \<times> buckets" where
  "calls [] client_key max_requests window_seconds b = ([], b)"
| "calls (now # ts) client_key max_requests window_seconds b =
     (case is_allowed now client_key max_requests window_seconds b of
        (ok, b') \<Rightarrow>
          (case calls ts client_key max_requests window_seconds b' of
             (oks, b'') \<Rightarrow> (ok # oks, b'')))"

section \<open>Properties of the audit listing\<close>

subsection \<open>Pagination and evaluation lemmas\<close>

lemma in_some_page:
  assumes "x \<in> set xs" and "1 \<le> pp"
  shows "\<exists>pg\<ge>1. x \<in> set (paginate pg pp xs)"
proof -
  from assms(1) obtain i where i: "i < length xs" and xi: "xs ! i = x"
    by (auto simp: in_set_conv_nth)
  define n where "n = nat pp"
  have n: "0 < n" using assms(2) by (simp add: n_def)
  define pg where "pg = int (i div n) + 1"
  have off: "nat ((pg - 1) * pp) = (i div n) * n"
    using assms(2) by (simp add: pg_def n_def nat_mult_distrib)
  define k where "k = (i div n) * n"
  have le: "k \<le> i" by (simp add: k_def)
  have lt: "i - k < n"
    using n unfolding k_def by (metis minus_div_mult_eq_mod mod_less_divisor)
  have "drop k xs ! (i - k) = x"
    using i le xi by (simp add: nth_drop)
  moreover have "i - k < length (drop k xs)"
    using i le by simp
  ultimately have "x \<in> set (take n (drop k xs))"
    using lt by (metis in_set_conv_nth length_take min_less_iff_conj nth_take)
  then have "x \<in> set (paginate pg pp xs)"
    by (simp add: paginate_def off n_def k_def)
  moreover have "1 \<le> pg" by (simp add: pg_def)
  ultimately show ?thesis by blast
qed

lemma set_paginate: "set (paginate pg pp xs) \<subseteq> set xs"
  by (auto simp: paginate_def dest: in_set_takeD in_set_dropD)

lemma set_order_desc: "set (order_desc xs) = set xs"
  by (simp add: order_desc_def)

lemma caller_filter_none: "caller_filter no_filters e"
  by (simp add: caller_filter_def no_filters_def int_cond_def)

lemma audit_query_InrD:
  assumes "audit_query clinics logs u f = Inr q"
  shows "\<exists>vis. role_filter clinics u = Inr vis \<and>
           q = filter (\<lambda>e. vis e \<and> caller_filter f e) logs"
  using assms by (auto simp: audit_query_def split: sum.splits)

lemma get_audit_logs_InrD:
  assumes "get_audit_logs clinics logs u page per_page f = Inr r"
  shows "\<exists>q. audit_query clinics logs u f = Inr q \<and>
           r_logs r = paginate page per_page (order_desc q) \<and>
           1 \<le> page \<and> 1 \<le> per_page \<and> per_page \<le> 100"
  using assms by (auto simp: get_audit_logs_def split: if_splits sum.splits)

lemma returned_entry:
  assumes "get_audit_logs clinics logs u page per_page f = Inr r" and "e \<in> set (r_logs r)"
  shows "\<exists>vis. role_filter clinics u = Inr vis \<and> vis e \<and> caller_filter f e \<and> e \<in> set logs"
proof -
  from get_audit_logs_InrD [OF assms(1)] obtain q where
    q: "audit_query clinics logs u f = Inr q" and
    r: "r_logs r = paginate page per_page (order_desc q)" by blast
  from audit_query_InrD [OF q] obtain vis where
    vis: "role_filter clinics u = Inr vis" and
    qf: "q = filter (\<lambda>e. vis e \<and> caller_filter f e) logs" by blast
  from assms(2) r have "e \<in> set (order_desc q)"
    using set_paginate by fastforce
  then have "e \<in> set q" by (simp add: set_order_desc)
  with qf vis show ?thesis by auto
qed

lemma visible_on_some_page:
  assumes "role_filter clinics u = Inr vis" and "vis e" and "e \<in> set logs"
    and "1 \<le> per_page" and "per_page \<le> 100"
  shows "\<exists>pg\<ge>1. \<exists>r. get_audit_logs clinics logs u pg per_page no_filters = Inr r \<and>
           e \<in> set (r_logs r)"
proof -
  define q where "q = filter (\<lambda>e. vis e \<and> caller_filter no_filters e) logs"
  have aq: "audit_query clinics logs u no_filters = Inr q"
    by (simp add: audit_query_def assms(1) q_def)
  have "e \<in> set (order_desc q)"
    using assms(2,3) by (simp add: set_order_desc q_def caller_filter_none)
  from in_some_page [OF this assms(4)] obtain pg where
    pg: "1 \<le> pg" and mem: "e \<in> set (paginate pg per_page (order_desc q))" by blast
  have "get_audit_logs clinics logs u pg per_page no_filters =
          Inr \<lparr>r_logs = paginate pg per_page (order_desc q),
               r_total = int (length q), r_page = pg, r_per_page = per_page\<rparr>"
    using pg assms(4,5) by (simp add: get_audit_logs_def aq)
  with pg mem show ?thesis by auto
qed

lemma role_filter_cases:
  assumes "role_filter clinics u = Inr vis" and "vis e"
  shows "u_role u = Some ADMIN \<or>
     ((u_role u = Some CLINIC_ADMIN \<or> u_role u = Some CLINIC_STAFF) \<and>
        ((\<exists>c. clinic_of_admin clinics u = Some c \<and> al_clinic_id e = Some (c_id c)) \<or>
         (clinic_of_admin clinics u = None \<and> al_user_id e = Some (u_id u)))) \<or>
     (u_role u = Some PATIENT \<and> al_user_id e = Some (u_id u) \<and>
        (al_entity_type e = ENT_USER \<or> al_entity_type e = ENT_DOCUMENT))"
  using assms by (auto simp: role_filter_def split: if_splits option.splits)

text \<open>
  Claim C1 (amended): an entry on a page of \<^verbatim>\<open>/audit/logs\<close> is a stored entry that
  the principal's role permits: any entry for an Admin; for a ClinicAdmin or ClinicStaff
  the entries of the clinic the principal administers, or the principal's own entries
  when there is no such clinic; for a Patient the entries with the patient's own
  \<open>user_id\<close> and entity type USER or DOCUMENT. An entry of the ClinicAdmin's own clinic
  is on some page of the unfiltered listing, an entry of another clinic on none. A
  Patient is never given an entry of another user or of another entity type, whatever
  its clinic. A principal with none of the four roles gets 403.
\<close>

theorem audit_visibility_by_role:
  "(get_audit_logs clinics logs u page per_page f = Inr r \<longrightarrow> e \<in> set (r_logs r) \<longrightarrow>
      e \<in> set logs \<and>
      (u_role u = Some ADMIN \<or>
       ((u_role u = Some CLINIC_ADMIN \<or> u_role u = Some CLINIC_STAFF) \<and>
         ((\<exists>c. clinic_of_admin clinics u = Some c \<and> al_clinic_id e = Some (c_id c)) \<or>
          (clinic_of_admin clinics u = None \<and> al_user_id e = Some (u_id u)))) \<or>
       (u_role u = Some PATIENT \<and> al_user_id e = Some (u_id u) \<and>
         (al_entity_type e = ENT_USER \<or> al_entity_type e = ENT_DOCUMENT)))) \<and>
   (u_role u = Some CLINIC_ADMIN \<longrightarrow> clinic_of_admin clinics u = Some c \<longrightarrow>
      e \<in> set logs \<longrightarrow> al_clinic_id e = Some (c_id c) \<longrightarrow>
      1 \<le> per_page \<longrightarrow> per_page \<le> 100 \<longrightarrow>
      (\<exists>pg\<ge>1. \<exists>r'. get_audit_logs clinics logs u pg per_page no_filters = Inr r' \<and>
          e \<in> set (r_logs r'))) \<and>
   (u_role u = Some CLINIC_ADMIN \<longrightarrow> clinic_of_admin clinics u = Some c \<longrightarrow>
      al_clinic_id e \<noteq> Some (c_id c) \<longrightarrow>
      get_audit_logs clinics logs u page per_page f = Inr r \<longrightarrow> e \<notin> set (r_logs r)) \<and>
   (u_role u = Some PATIENT \<longrightarrow> get_audit_logs clinics logs u page per_page f = Inr r \<longrightarrow>
      (al_user_id e \<noteq> Some (u_id u) \<or>
       (al_entity_type e \<noteq> ENT_USER \<and> al_entity_type e \<noteq> ENT_DOCUMENT)) \<longrightarrow>
      e \<notin> set (r_logs r)) \<and>
   (u_role u \<notin> {Some ADMIN, Some CLINIC_ADMIN, Some CLINIC_STAFF, Some PATIENT} \<longrightarrow>
      1 \<le> page \<longrightarrow> 1 \<le> per_page \<longrightarrow> per_page \<le> 100 \<longrightarrow>
      get_audit_logs clinics logs u page per_page f = Inl (HTTPException 403 ''Access denied''))"
proof (intro conjI impI)
  assume a: "get_audit_logs clinics logs u page per_page f = Inr r" "e \<in> set (r_logs r)"
  from returned_entry [OF a] obtain vis where
    v: "role_filter clinics u = Inr vis" "vis e" "e \<in> set logs" by blast
  then show "e \<in> set logs" by simp
  from role_filter_cases [OF v(1,2)]
  show "u_role u = Some ADMIN \<or>
     ((u_role u = Some CLINIC_ADMIN \<or> u_role u = Some CLINIC_STAFF) \<and>
        ((\<exists>c. clinic_of_admin clinics u = Some c \<and> al_clinic_id e = Some (c_id c)) \<or>
         (clinic_of_admin clinics u = None \<and> al_user_id e = Some (u_id u)))) \<or>
     (u_role u = Some PATIENT \<and> al_user_id e = Some (u_id u) \<and>
        (al_entity_type e = ENT_USER \<or> al_entity_type e = ENT_DOCUMENT))" .
next
  assume a: "u_role u = Some CLINIC_ADMIN" "clinic_of_admin clinics u = Some c"
    "e \<in> set logs" "al_clinic_id e = Some (c_id c)" "1 \<le> per_page" "per_page \<le> 100"
  have "role_filter clinics u = Inr (\<lambda>e. al_clinic_id e = Some (c_id c))"
    using a(1,2) by (simp add: role_filter_def)
  from visible_on_some_page [OF this a(4) a(3) a(5) a(6)]
  show "\<exists>pg\<ge>1. \<exists>r'. get_audit_logs clinics logs u pg per_page no_filters = Inr r' \<and>
          e \<in> set (r_logs r')" .
next
  assume a: "u_role u = Some CLINIC_ADMIN" "clinic_of_admin clinics u = Some c"
    "al_clinic_id e \<noteq> Some (c_id c)" "get_audit_logs clinics logs u page per_page f = Inr r"
  show "e \<notin> set (r_logs r)"
  proof
    assume "e \<in> set (r_logs r)"
    from returned_entry [OF a(4) this] obtain vis where
      v: "role_filter clinics u = Inr vis" "vis e" by blast
    from role_filter_cases [OF v] a(1,2,3) show False by auto
  qed
next
  assume a: "u_role u = Some PATIENT" "get_audit_logs clinics logs u page per_page f = Inr r"
    "al_user_id e \<noteq> Some (u_id u) \<or>
       (al_entity_type e \<noteq> ENT_USER \<and> al_entity_type e \<noteq> ENT_DOCUMENT)"
  show "e \<notin> set (r_logs r)"
  proof
    assume "e \<in> set (r_logs r)"
    from returned_entry [OF a(2) this] obtain vis where
      v: "role_filter clinics u = Inr vis" "vis e" by blast
    from role_filter_cases [OF v] a(1,3) show False by auto
  qed
next
  assume a: "u_role u \<notin> {Some ADMIN, Some CLINIC_ADMIN, Some CLINIC_STAFF, Some PATIENT}"
    "1 \<le> page" "1 \<le> per_page" "per_page \<le> 100"
  have "role_filter clinics u = Inl (HTTPException 403 ''Access denied'')"
    using a(1) by (simp add: role_filter_def)
  then show "get_audit_logs clinics logs u page per_page f =
      Inl (HTTPException 403 ''Access denied'')"
    using a(2,3,4) by (simp add: get_audit_logs_def audit_query_def)
qed

text \<open>
  Claim C5: caller filters only narrow. The filtered query is a subset of the unfiltered
  one for the same principal, and every entry on a page of the filtered listing is on
  some page of the unfiltered listing.
\<close>

theorem filters_only_narrow:
  "(audit_query clinics logs u f = Inr q \<longrightarrow>
      (\<exists>q0. audit_query clinics logs u no_filters = Inr q0 \<and> set q \<subseteq> set q0)) \<and>
   (get_audit_logs clinics logs u page per_page f = Inr r \<longrightarrow> e \<in> set (r_logs r) \<longrightarrow>
      (\<exists>pg\<ge>1. \<exists>r0. get_audit_logs clinics logs u pg per_page no_filters = Inr r0 \<and>
          e \<in> set (r_logs r0)))"
proof (intro conjI impI)
  assume "audit_query clinics logs u f = Inr q"
  from audit_query_InrD [OF this] obtain vis where
    v: "role_filter clinics u = Inr vis" and q: "q = filter (\<lambda>e. vis e \<and> caller_filter f e) logs"
    by blast
  have "audit_query clinics logs u no_filters =
          Inr (filter (\<lambda>e. vis e \<and> caller_filter no_filters e) logs)"
    by (simp add: audit_query_def v)
  moreover have "set q \<subseteq> set (filter (\<lambda>e. vis e \<and> caller_filter no_filters e) logs)"
    by (auto simp: q caller_filter_none)
  ultimately show "\<exists>q0. audit_query clinics logs u no_filters = Inr q0 \<and> set q \<subseteq> set q0"
    by blast
next
  assume a: "get_audit_logs clinics logs u page per_page f = Inr r" "e \<in> set (r_logs r)"
  from returned_entry [OF a] obtain vis where
    v: "role_filter clinics u = Inr vis" "vis e" "e \<in> set logs" by blast
  from get_audit_logs_InrD [OF a(1)] have pp: "1 \<le> per_page" "per_page \<le> 100" by auto
  from visible_on_some_page [OF v(1) v(2) v(3) pp]
  show "\<exists>pg\<ge>1. \<exists>r0. get_audit_logs clinics logs u pg per_page no_filters = Inr r0 \<and>
          e \<in> set (r_logs r0)" .
qed

text \<open>
  Claim C6: a ClinicAdmin or ClinicStaff principal for whom no clinic row has
  \<open>admin_user_id\<close> equal to the principal's id is restricted to the entries whose
  \<open>user_id\<close> is the principal's own.
\<close>

theorem audit_fallback_fail_closed:
  assumes "u_role u = Some CLINIC_ADMIN \<or> u_role u = Some CLINIC_STAFF"
    and "\<forall>c\<in>set clinics. c_admin_user_id c \<noteq> Some (u_id u)"
  shows "audit_query clinics logs u f =
           Inr (filter (\<lambda>e. al_user_id e = Some (u_id u) \<and> caller_filter f e) logs) \<and>
         (get_audit_logs clinics logs u page per_page f = Inr r \<longrightarrow>
            (\<forall>e\<in>set (r_logs r). al_user_id e = Some (u_id u)))"
proof -
  have none: "clinic_of_admin clinics u = None"
    using assms(2) by (auto simp: clinic_of_admin_def find_None_iff)
  have rf: "role_filter clinics u = Inr (\<lambda>e. al_user_id e = Some (u_id u))"
    using assms(1) none by (auto simp: role_filter_def)
  have q: "audit_query clinics logs u f =
           Inr (filter (\<lambda>e. al_user_id e = Some (u_id u) \<and> caller_filter f e) logs)"
    by (simp add: audit_query_def rf)
  have "\<forall>e\<in>set (r_logs r). al_user_id e = Some (u_id u)"
    if "get_audit_logs clinics logs u page per_page f = Inr r"
  proof
    fix e assume "e \<in> set (r_logs r)"
    from returned_entry [OF that this] rf show "al_user_id e = Some (u_id u)" by auto
  qed
  with q show ?thesis by blast
qed

lemmas audit_eval =
  get_audit_logs_def audit_query_def role_filter_def clinic_of_admin_def caller_filter_def
  int_cond_def no_filters_def paginate_def order_desc_def demo_clinics_def demo_user_def
  demo_log_def demo_logs_def

text \<open>
  Claim C1, as stated, says that an entry with \<open>clinic_id = 7\<close> is not returned to
  any Patient principal. The Patient branch does not look at the clinic: patient 5 is
  given the entry with \<open>clinic_id = 7\<close> that records the patient's own view of a
  document.
\<close>

theorem patient_sees_own_clinic_entry:
  "al_clinic_id (demo_log 2 (Some 5) VIEW ENT_DOCUMENT (Some 7) 200) = Some 7 \<and>
   u_role (demo_user 5 (Some PATIENT)) = Some PATIENT \<and>
   get_audit_logs demo_clinics demo_logs (demo_user 5 (Some PATIENT)) 1 20 no_filters =
     Inr \<lparr>r_logs = [demo_log 2 (Some 5) VIEW ENT_DOCUMENT (Some 7) 200],
          r_total = 1, r_page = 1, r_per_page = 20\<rparr>"
  by (simp add: audit_eval)

text \<open>
  The theorem of C1 on the example data: the administrator of clinic 7 finds the entry of
  clinic 7, the administrator of clinic 9 does not, the patient is not given it, and a
  user without a known role is refused.
\<close>

theorem audit_visibility_by_role_witness:
  "(\<exists>pg\<ge>1. \<exists>r'. get_audit_logs demo_clinics demo_logs (demo_user 1 (Some CLINIC_ADMIN)) pg 20
        no_filters = Inr r' \<and>
      demo_log 1 (Some 1) CREATE ENT_PATIENT (Some 7) 100 \<in> set (r_logs r')) \<and>
   demo_log 1 (Some 1) CREATE ENT_PATIENT (Some 7) 100 \<notin>
     set (r_logs \<lparr>r_logs = [demo_log 3 (Some 3) UPLOAD ENT_DOCUMENT (Some 9) 300],
                  r_total = 1, r_page = 1, r_per_page = 20\<rparr>) \<and>
   demo_log 1 (Some 1) CREATE ENT_PATIENT (Some 7) 100 \<notin>
     set (r_logs \<lparr>r_logs = [demo_log 2 (Some 5) VIEW ENT_DOCUMENT (Some 7) 200],
                  r_total = 1, r_page = 1, r_per_page = 20\<rparr>) \<and>
   demo_log 2 (Some 5) VIEW ENT_DOCUMENT (Some 7) 200 \<in> set demo_logs \<and>
   get_audit_logs demo_clinics demo_logs (demo_user 6 None) 1 20 no_filters =
     Inl (HTTPException 403 ''Access denied'')"
proof -
  let ?e = "demo_log 1 (Some 1) CREATE ENT_PATIENT (Some 7) 100"
  let ?e2 = "demo_log 2 (Some 5) VIEW ENT_DOCUMENT (Some 7) 200"
  let ?rp = "\<lparr>r_logs = [?e2], r_total = 1, r_page = 1, r_per_page = 20\<rparr>"
  let ?c7 = "\<lparr>c_id = 7, c_name = ''North'', c_admin_user_id = Some 1\<rparr>"
  let ?c9 = "\<lparr>c_id = 9, c_name = ''South'', c_admin_user_id = Some 2\<rparr>"
  let ?r9 = "\<lparr>r_logs = [demo_log 3 (Some 3) UPLOAD ENT_DOCUMENT (Some 9) 300],
                  r_total = 1, r_page = 1, r_per_page = 20\<rparr>"
  have a: "u_role (demo_user 1 (Some CLINIC_ADMIN)) = Some CLINIC_ADMIN"
    "clinic_of_admin demo_clinics (demo_user 1 (Some CLINIC_ADMIN)) = Some ?c7"
    "?e \<in> set demo_logs" "al_clinic_id ?e = Some (c_id ?c7)" "(1::int) \<le> 20" "(20::int) \<le> 100"
    by (simp_all add: audit_eval)
  have b: "u_role (demo_user 2 (Some CLINIC_ADMIN)) = Some CLINIC_ADMIN"
    "clinic_of_admin demo_clinics (demo_user 2 (Some CLINIC_ADMIN)) = Some ?c9"
    "al_clinic_id ?e \<noteq> Some (c_id ?c9)"
    "get_audit_logs demo_clinics demo_logs (demo_user 2 (Some CLINIC_ADMIN)) 1 20 no_filters =
       Inr ?r9"
    by (simp_all add: audit_eval)
  have c: "u_role (demo_user 6 None) \<notin>
      {Some ADMIN, Some CLINIC_ADMIN, Some CLINIC_STAFF, Some PATIENT}"
    "(1::int) \<le> 1"
    by (simp_all add: demo_user_def)
  from audit_visibility_by_role
    [where u = "demo_user 1 (Some CLINIC_ADMIN)" and clinics = demo_clinics and logs = demo_logs
       and e = ?e and c = ?c7 and per_page = 20] a
  have 1: "\<exists>pg\<ge>1. \<exists>r'. get_audit_logs demo_clinics demo_logs (demo_user 1 (Some CLINIC_ADMIN))
      pg 20 no_filters = Inr r' \<and> ?e \<in> set (r_logs r')"
    by blast
  from audit_visibility_by_role
    [where u = "demo_user 2 (Some CLINIC_ADMIN)" and clinics = demo_clinics and logs = demo_logs
       and e = ?e and c = ?c9 and page = 1 and per_page = 20 and f = no_filters and r = ?r9] b
  have 2: "?e \<notin> set (r_logs ?r9)"
    by blast
  from audit_visibility_by_role
    [where u = "demo_user 6 None" and clinics = demo_clinics and logs = demo_logs
       and page = 1 and per_page = 20 and f = no_filters] c a(5,6)
  have 3: "get_audit_logs demo_clinics demo_logs (demo_user 6 None) 1 20 no_filters =
     Inl (HTTPException 403 ''Access denied'')"
    by blast
  have d: "u_role (demo_user 5 (Some PATIENT)) = Some PATIENT"
    "get_audit_logs demo_clinics demo_logs (demo_user 5 (Some PATIENT)) 1 20 no_filters =
       Inr ?rp"
    "al_user_id ?e \<noteq> Some (u_id (demo_user 5 (Some PATIENT)))"
    "?e2 \<in> set (r_logs ?rp)"
    by (simp_all add: audit_eval)
  from audit_visibility_by_role
    [where u = "demo_user 5 (Some PATIENT)" and clinics = demo_clinics and logs = demo_logs
       and e = ?e and page = 1 and per_page = 20 and f = no_filters and r = ?rp] d
  have 4: "?e \<notin> set (r_logs ?rp)"
    by blast
  from audit_visibility_by_role
    [where u = "demo_user 5 (Some PATIENT)" and clinics = demo_clinics and logs = demo_logs
       and e = ?e2 and page = 1 and per_page = 20 and f = no_filters and r = ?rp] d
  have 5: "?e2 \<in> set demo_logs"
    by blast
  from 1 2 3 4 5 show ?thesis by blast
qed

text \<open>
  The theorem of C5 for an Admin filtering on the action UPLOAD.
\<close>

theorem filters_only_narrow_witness:
  "\<exists>pg\<ge>1. \<exists>r0. get_audit_logs demo_clinics demo_logs (demo_user 0 (Some ADMIN)) pg 1
      no_filters = Inr r0 \<and>
     demo_log 3 (Some 3) UPLOAD ENT_DOCUMENT (Some 9) 300 \<in> set (r_logs r0)"
proof -
  let ?f = "no_filters\<lparr>f_action := Some UPLOAD\<rparr>"
  let ?e = "demo_log 3 (Some 3) UPLOAD ENT_DOCUMENT (Some 9) 300"
  let ?r = "\<lparr>r_logs = [?e], r_total = 1, r_page = 1, r_per_page = 1\<rparr>"
  have a: "get_audit_logs demo_clinics demo_logs (demo_user 0 (Some ADMIN)) 1 1 ?f = Inr ?r"
    "?e \<in> set (r_logs ?r)"
    by (simp_all add: audit_eval)
  from filters_only_narrow
    [where u = "demo_user 0 (Some ADMIN)" and clinics = demo_clinics and logs = demo_logs
       and e = ?e and page = 1 and per_page = 1 and f = ?f and r = ?r] a
  show ?thesis by blast
qed

text \<open>
  The theorem of C6 for the staff member 3, who administers no clinic.
\<close>

theorem audit_fallback_fail_closed_witness:
  "audit_query demo_clinics demo_logs (demo_user 3 (Some CLINIC_STAFF)) no_filters =
     Inr [demo_log 3 (Some 3) UPLOAD ENT_DOCUMENT (Some 9) 300]"
proof -
  have a: "u_role (demo_user 3 (Some CLINIC_STAFF)) = Some CLINIC_ADMIN \<or>
           u_role (demo_user 3 (Some CLINIC_STAFF)) = Some CLINIC_STAFF"
    by (simp add: demo_user_def)
  have b: "\<forall>c\<in>set demo_clinics. c_admin_user_id c \<noteq> Some (u_id (demo_user 3 (Some CLINIC_STAFF)))"
    by (simp add: demo_user_def demo_clinics_def)
  from audit_fallback_fail_closed [OF a b, of demo_logs no_filters]
  show ?thesis
    by (simp add: demo_logs_def demo_log_def demo_user_def caller_filter_def int_cond_def
        no_filters_def)
qed

section \<open>Properties of the document handlers\<close>

lemma no_clinic_row:
  assumes "\<forall>c\<in>set clinics. c_admin_user_id c \<noteq> Some (u_id u)"
  shows "clinic_of_admin clinics u = None"
  using assms by (auto simp: clinic_of_admin_def find_None_iff)

lemma resolve_upload_clinic_fallback:
  assumes "u_role u = Some CLINIC_ADMIN \<or> u_role u = Some CLINIC_STAFF"
    and "\<forall>c\<in>set clinics. c_admin_user_id c \<noteq> Some (u_id u)"
  shows "resolve_upload_clinic clinics u = Some 1"
  using assms(1) no_clinic_row [OF assms(2)] by (auto simp: resolve_upload_clinic_def)

lemma upload_not_400:
  assumes "resolve_upload_clinic (st_clinics db) u = Some k" and "k \<noteq> 0"
  shows "fst (upload_document (Saved path name sz) file patient_id dt notes u db) \<noteq>
           Inl (HTTPException 400 ''Cannot determine clinic association'')"
  using assms
  by (auto simp: upload_document_def DocumentResponse_from_orm_def Let_def split: option.splits)

lemma upload_patient_elsewhere:
  assumes "resolve_upload_clinic (st_clinics db) u = Some k" and "k \<noteq> 0"
    and "patient_id \<noteq> None" and "patient_id \<noteq> Some 0"
    and "\<forall>p\<in>set (st_patients db). \<not> (Some (p_id p) = patient_id \<and> p_clinic_id p = Some k)"
  shows "fst (upload_document (Saved path name sz) file patient_id dt notes u db) =
           Inl (HTTPException 404 ''Patient not found in your clinic'') \<and>
         st_documents (snd (upload_document (Saved path name sz) file patient_id dt notes u db)) =
           st_documents db"
proof -
  have "find (\<lambda>p. Some (p_id p) = patient_id \<and> p_clinic_id p = Some k) (st_patients db) = None"
    using assms(5) by (auto simp: find_None_iff)
  with assms(1-4) show ?thesis
    by (auto simp: upload_document_def Let_def split: option.splits)
qed

lemma upload_stores_row:
  assumes "resolve_upload_clinic (st_clinics db) u = Some k" and "k \<noteq> 0"
    and "patient_id = None \<or> patient_id = Some 0 \<or>
         (\<exists>p\<in>set (st_patients db). Some (p_id p) = patient_id \<and> p_clinic_id p = Some k)"
  shows "\<exists>doc. st_documents
             (snd (upload_document (Saved path name sz) file patient_id dt notes u db)) =
             st_documents db @ [doc] \<and>
           d_clinic_id doc = Some k \<and> d_patient_id doc = patient_id"
proof -
  have "\<not> ((case patient_id of None \<Rightarrow> False | Some pid \<Rightarrow> pid \<noteq> 0) \<and>
      find (\<lambda>p. Some (p_id p) = patient_id \<and> p_clinic_id p = Some k) (st_patients db) = None)"
    using assms(3) by (auto simp: find_None_iff split: option.splits)
  with assms(1,2) show ?thesis
    by (simp add: upload_document_def DocumentResponse_from_orm_def Let_def)
qed

text \<open>
  Claim C7, as stated, says that the upload does not fail. The fallback clinic 1 is then
  the clinic the named patient is looked up in: a staff member without a clinic row who
  names patient 11, a patient of clinic 9, is answered with 404 and no row is stored.
\<close>

theorem upload_for_patient_of_other_clinic_fails:
  "u_role (demo_user 3 (Some CLINIC_STAFF)) = Some CLINIC_STAFF \<and>
   clinic_of_admin (st_clinics demo_store) (demo_user 3 (Some CLINIC_STAFF)) = None \<and>
   fst (upload_document (Saved ''uploads/documents/n.pdf'' ''n.pdf'' 10)
        \<lparr>uf_filename = Some ''report.pdf'', uf_content_type = Some ''application/pdf''\<rparr>
        (Some 11) None None (demo_user 3 (Some CLINIC_STAFF)) demo_store) =
     Inl (HTTPException 404 ''Patient not found in your clinic'') \<and>
   st_documents (snd (upload_document (Saved ''uploads/documents/n.pdf'' ''n.pdf'' 10)
        \<lparr>uf_filename = Some ''report.pdf'', uf_content_type = Some ''application/pdf''\<rparr>
        (Some 11) None None (demo_user 3 (Some CLINIC_STAFF)) demo_store)) = [demo_document]"
  by (simp add: upload_document_def resolve_upload_clinic_def clinic_of_admin_def
      demo_store_def demo_clinics_def demo_user_def Let_def)

text \<open>
  Claim C7 (amended): when a ClinicAdmin or ClinicStaff principal administers no clinic
  row, the upload is not refused for the missing clinic but goes on with the clinic
  identifier 1. Once the file is saved the answer is never the 400 of an undetermined
  clinic. A named patient is looked up among the patients of clinic 1: if there is none,
  the answer is 404 and no row is stored. In every other case exactly one row is added,
  with \<open>clinic_id = 1\<close> and the given patient.
\<close>

theorem upload_falls_back_to_clinic_1:
  assumes "u_role u = Some CLINIC_ADMIN \<or> u_role u = Some CLINIC_STAFF"
    and "\<forall>c\<in>set (st_clinics db). c_admin_user_id c \<noteq> Some (u_id u)"
  shows "resolve_upload_clinic (st_clinics db) u = Some 1 \<and>
         fst (upload_document (Saved path name sz) file patient_id dt notes u db) \<noteq>
           Inl (HTTPException 400 ''Cannot determine clinic association'') \<and>
         (patient_id \<noteq> None \<and> patient_id \<noteq> Some 0 \<and>
          (\<forall>p\<in>set (st_patients db). \<not> (Some (p_id p) = patient_id \<and> p_clinic_id p = Some 1)) \<longrightarrow>
            fst (upload_document (Saved path name sz) file patient_id dt notes u db) =
              Inl (HTTPException 404 ''Patient not found in your clinic'') \<and>
            st_documents (snd (upload_document (Saved path name sz) file patient_id dt notes u db)) =
              st_documents db) \<and>
         (patient_id = None \<or> patient_id = Some 0 \<or>
          (\<exists>p\<in>set (st_patients db). Some (p_id p) = patient_id \<and> p_clinic_id p = Some 1) \<longrightarrow>
            (\<exists>doc. st_documents
                (snd (upload_document (Saved path name sz) file patient_id dt notes u db)) =
                st_documents db @ [doc] \<and>
              d_clinic_id doc = Some 1 \<and> d_patient_id doc = patient_id))"
proof -
  have r: "resolve_upload_clinic (st_clinics db) u = Some 1"
    by (rule resolve_upload_clinic_fallback [OF assms])
  have k: "(1::int) \<noteq> 0" by simp
  note a = upload_not_400 [OF r k]
  have b: "fst (upload_document (Saved path name sz) file patient_id dt notes u db) =
              Inl (HTTPException 404 ''Patient not found in your clinic'') \<and>
            st_documents (snd (upload_document (Saved path name sz) file patient_id dt notes u db)) =
              st_documents db"
    if "patient_id \<noteq> None \<and> patient_id \<noteq> Some 0 \<and>
          (\<forall>p\<in>set (st_patients db). \<not> (Some (p_id p) = patient_id \<and> p_clinic_id p = Some 1))"
    using upload_patient_elsewhere [OF r k] that
    by blast
  have c: "\<exists>doc. st_documents
                (snd (upload_document (Saved path name sz) file patient_id dt notes u db)) =
                st_documents db @ [doc] \<and>
              d_clinic_id doc = Some 1 \<and> d_patient_id doc = patient_id"
    if "patient_id = None \<or> patient_id = Some 0 \<or>
          (\<exists>p\<in>set (st_patients db). Some (p_id p) = patient_id \<and> p_clinic_id p = Some 1)"
    using upload_stores_row [OF r k that] .
  from r a b c show ?thesis by blast
qed

lemmas doc_eval =
  demo_store_def demo_document_def demo_clinics_def demo_user_def

text \<open>
  The theorem of C7 for the staff member 3: without a patient the row is stored under
  clinic 1; with patient 11 of clinic 9 nothing is stored.
\<close>

theorem upload_falls_back_to_clinic_1_witness:
  "(\<exists>doc. st_documents (snd (upload_document (Saved ''uploads/documents/n.pdf'' ''n.pdf'' 10)
        \<lparr>uf_filename = Some ''report.pdf'', uf_content_type = Some ''application/pdf''\<rparr>
        None None None (demo_user 3 (Some CLINIC_STAFF)) demo_store)) =
      st_documents demo_store @ [doc] \<and> d_clinic_id doc = Some 1) \<and>
   st_documents (snd (upload_document (Saved ''uploads/documents/n.pdf'' ''n.pdf'' 10)
        \<lparr>uf_filename = Some ''report.pdf'', uf_content_type = Some ''application/pdf''\<rparr>
        (Some 11) None None (demo_user 3 (Some CLINIC_STAFF)) demo_store)) =
      st_documents demo_store"
proof -
  have a: "u_role (demo_user 3 (Some CLINIC_STAFF)) = Some CLINIC_ADMIN \<or>
           u_role (demo_user 3 (Some CLINIC_STAFF)) = Some CLINIC_STAFF"
    by (simp add: demo_user_def)
  have b: "\<forall>c\<in>set (st_clinics demo_store).
      c_admin_user_id c \<noteq> Some (u_id (demo_user 3 (Some CLINIC_STAFF)))"
    by (simp add: doc_eval)
  have c: "Some 11 \<noteq> (None :: int option) \<and> Some 11 \<noteq> Some (0::int) \<and>
      (\<forall>p\<in>set (st_patients demo_store). \<not> (Some (p_id p) = Some 11 \<and> p_clinic_id p = Some 1))"
    by (simp add: doc_eval)
  from upload_falls_back_to_clinic_1 [OF a b, where patient_id = None]
  have 1: "\<exists>doc. st_documents (snd (upload_document (Saved ''uploads/documents/n.pdf'' ''n.pdf'' 10)
        \<lparr>uf_filename = Some ''report.pdf'', uf_content_type = Some ''application/pdf''\<rparr>
        None None None (demo_user 3 (Some CLINIC_STAFF)) demo_store)) =
      st_documents demo_store @ [doc] \<and> d_clinic_id doc = Some 1"
    by blast
  from upload_falls_back_to_clinic_1 [OF a b, where patient_id = "Some 11"] c
  have 2: "st_documents (snd (upload_document (Saved ''uploads/documents/n.pdf'' ''n.pdf'' 10)
        \<lparr>uf_filename = Some ''report.pdf'', uf_content_type = Some ''application/pdf''\<rparr>
        (Some 11) None None (demo_user 3 (Some CLINIC_STAFF)) demo_store)) =
      st_documents demo_store"
    by blast
  from 1 2 show ?thesis by blast
qed

text \<open>
  Claim C9 at a concrete input: the staff member 3 administers no clinic row and
  document 40 belongs to clinic 9. The permission check lets the request through and
  the query of the listing carries no clinic condition, but \<^verbatim>\<open>get_document\<close> and
  the listing end in the validation error of their response schema instead of
  returning the document; \<^verbatim>\<open>download_document\<close> returns the file.
\<close>

theorem document_reads_without_clinic:
  "clinic_of_admin (st_clinics demo_store) (demo_user 3 (Some CLINIC_STAFF)) = None \<and>
   d_clinic_id demo_document = Some 9 \<and>
   check_document_access demo_store (demo_user 3 (Some CLINIC_STAFF)) demo_document = None \<and>
   get_document demo_store (demo_user 3 (Some CLINIC_STAFF)) 40 =
     Inl (ResponseValidationError [''file_hash'']) \<and>
   download_document demo_store (demo_user 3 (Some CLINIC_STAFF)) 40 =
     Inr \<lparr>fr_path = ''uploads/documents/f40.pdf'', fr_filename = ''scan.pdf'',
          fr_media_type = ''application/pdf''\<rparr> \<and>
   documents_query demo_store (demo_user 3 (Some CLINIC_STAFF)) None None None =
     Inr [demo_document] \<and>
   get_documents demo_store (demo_user 3 (Some CLINIC_STAFF)) 1 20 None None None =
     Inl (ResponseValidationError [''file_hash''])"
  by (simp add: get_document_def download_document_def get_documents_def documents_query_def
      document_scope_def document_filter_def int_cond_def check_document_access_def
      clinic_of_admin_def DocumentResponse_from_orm_def paginate_def doc_eval)

section \<open>Properties of the request pipeline\<close>

subsection \<open>CSRF\<close>

text \<open>
  Claim C2, as stated, lets every request with an Authorization header pass the CSRF
  stage. A header that is present with an empty value is rejected like a missing one.
\<close>

theorem csrf_rejects_empty_authorization:
  "rq_headers (demo_request ''POST'' ''/documents/upload'' [''authorization'' \<mapsto> '''']) ''authorization''
     = Some '''' \<and>
   CSRFMiddleware_dispatch
     (demo_request ''POST'' ''/documents/upload'' [''authorization'' \<mapsto> '''']) demo_handler 0 =
     (JSONResponse 403 ''CSRF protection: Authorization header required'', 0)"
  by (simp add: CSRFMiddleware_dispatch_def demo_request_def)

text \<open>
  Claim C2 (amended): for a method other than GET, HEAD and OPTIONS and a path that does
  not start with \<^verbatim>\<open>/auth/\<close>, a request whose Authorization header is missing or
  empty is answered with 403 and nothing downstream runs; a request whose Authorization
  header has a non-empty value, valid or not, is passed on unchanged.
\<close>

theorem csrf_enforcement:
  assumes "rq_method request \<noteq> ''GET''" and "rq_method request \<noteq> ''HEAD''"
    and "rq_method request \<noteq> ''OPTIONS''" and "\<not> prefix ''/auth/'' (rq_path request)"
  shows "(rq_headers request ''authorization'' = None \<or>
          rq_headers request ''authorization'' = Some '''' \<longrightarrow>
            CSRFMiddleware_dispatch request call_next s =
              (JSONResponse 403 ''CSRF protection: Authorization header required'', s) \<and>
            rs_status (fst (CSRFMiddleware_dispatch request call_next s)) = 403) \<and>
         (\<forall>v. rq_headers request ''authorization'' = Some v \<and> v \<noteq> '''' \<longrightarrow>
            CSRFMiddleware_dispatch request call_next s = call_next request s)"
  using assms by (auto simp: CSRFMiddleware_dispatch_def JSONResponse_def)

text \<open>
  The theorem of C2 for a POST to \<^verbatim>\<open>/documents/upload\<close>, without the header and
  with a header that no token check would accept.
\<close>

theorem csrf_enforcement_witness:
  "CSRFMiddleware_dispatch (demo_request ''POST'' ''/documents/upload'' Map.empty) demo_handler 0 =
     (JSONResponse 403 ''CSRF protection: Authorization header required'', 0) \<and>
   CSRFMiddleware_dispatch
     (demo_request ''POST'' ''/documents/upload'' [''authorization'' \<mapsto> ''Bearer junk''])
     demo_handler 0 =
     demo_handler
       (demo_request ''POST'' ''/documents/upload'' [''authorization'' \<mapsto> ''Bearer junk'']) 0"
proof -
  let ?r0 = "demo_request ''POST'' ''/documents/upload'' Map.empty"
  let ?r1 = "demo_request ''POST'' ''/documents/upload'' [''authorization'' \<mapsto> ''Bearer junk'']"
  have a: "rq_method ?r0 \<noteq> ''GET''" "rq_method ?r0 \<noteq> ''HEAD''" "rq_method ?r0 \<noteq> ''OPTIONS''"
    "\<not> prefix ''/auth/'' (rq_path ?r0)" "rq_headers ?r0 ''authorization'' = None"
    by (simp_all add: demo_request_def)
  have b: "rq_method ?r1 \<noteq> ''GET''" "rq_method ?r1 \<noteq> ''HEAD''" "rq_method ?r1 \<noteq> ''OPTIONS''"
    "\<not> prefix ''/auth/'' (rq_path ?r1)"
    "rq_headers ?r1 ''authorization'' = Some ''Bearer junk'' \<and> ''Bearer junk'' \<noteq> ''''"
    by (simp_all add: demo_request_def)
  from csrf_enforcement [OF a(1-4), of demo_handler 0] a(5)
  have 1: "CSRFMiddleware_dispatch ?r0 demo_handler 0 =
     (JSONResponse 403 ''CSRF protection: Authorization header required'', 0)"
    by blast
  from csrf_enforcement [OF b(1-4), of demo_handler 0] b(5)
  have 2: "CSRFMiddleware_dispatch ?r1 demo_handler 0 = demo_handler ?r1 0"
    by blast
  from 1 2 show ?thesis by blast
qed

subsection \<open>Rate limiting\<close>

lemma is_allowed_fresh:
  assumes "b k = None \<or> (\<exists>bk. b k = Some bk \<and> w \<le> now - window_start bk)"
  shows "is_allowed now k m w b = (True, b(k \<mapsto> \<lparr>window_start = now, count = 1\<rparr>))"
  using assms by (auto simp: is_allowed_def)

lemma is_allowed_within:
  assumes "b k = Some \<lparr>window_start = t0, count = c\<rparr>" and "now - t0 < w"
  shows "is_allowed now k m w b =
           (c + 1 \<le> m, b(k \<mapsto> \<lparr>window_start = t0, count = c + 1\<rparr>))"
  using assms by (simp add: is_allowed_def)

lemma is_allowed_elapsed:
  assumes "b k = Some \<lparr>window_start = t0, count = c\<rparr>" and "w \<le> now - t0"
  shows "is_allowed now k m w b = (True, b(k \<mapsto> \<lparr>window_start = now, count = 1\<rparr>))"
  using assms by (simp add: is_allowed_def)

lemma dispatch_rejected:
  assumes "rate_tier (rq_path request) = (m, w)"
    and "limiter (rq_client request) m w b = (False, b')"
  shows "SecurityMiddleware_dispatch limiter request call_next (b, s) =
           (JSONResponse 429 ''Rate limit exceeded'', (b', s))"
  using assms by (simp add: SecurityMiddleware_dispatch_def)

lemma dispatch_admitted:
  assumes "rate_tier (rq_path request) = (m, w)"
    and "limiter (rq_client request) m w b = (True, b')"
  shows "SecurityMiddleware_dispatch limiter request call_next (b, s) =
           (add_security_headers (fst (call_next request s)), (b', snd (call_next request s)))"
  using assms by (simp add: SecurityMiddleware_dispatch_def split: prod.splits)

text \<open>
  Claim C3: with 5 requests per 3600 seconds, a call that opens a window and the four
  next calls inside the window are admitted, the sixth call inside the window is
  rejected, and a call made once the window has elapsed is admitted with a fresh bucket
  of count 1. A request that the limiter rejects is answered with 429 and nothing
  downstream runs.
\<close>

theorem fixed_window_rate_limit:
  assumes fresh: "b k = None \<or> (\<exists>bk. b k = Some bk \<and> 3600 \<le> t1 - window_start bk)"
    and within: "t2 - t1 < 3600" "t3 - t1 < 3600" "t4 - t1 < 3600" "t5 - t1 < 3600"
      "t6 - t1 < 3600"
    and later: "3600 \<le> t7 - t1"
  shows "fst (calls [t1, t2, t3, t4, t5, t6, t7] k 5 3600 b) =
           [True, True, True, True, True, False, True] \<and>
         snd (calls [t1, t2, t3, t4, t5, t6, t7] k 5 3600 b) k =
           Some \<lparr>window_start = t7, count = 1\<rparr> \<and>
         (rate_tier (rq_path request) = (m, w) \<longrightarrow>
            is_allowed now (rq_client request) m w b0 = (False, b') \<longrightarrow>
            SecurityMiddleware_dispatch (is_allowed now) request call_next (b0, s) =
              (JSONResponse 429 ''Rate limit exceeded'', (b', s)) \<and>
            rs_status (JSONResponse 429 ''Rate limit exceeded'') = 429)"
proof -
  let ?b1 = "b(k \<mapsto> \<lparr>window_start = t1, count = 1\<rparr>)"
  let ?b2 = "?b1(k \<mapsto> \<lparr>window_start = t1, count = 2\<rparr>)"
  let ?b3 = "?b2(k \<mapsto> \<lparr>window_start = t1, count = 3\<rparr>)"
  let ?b4 = "?b3(k \<mapsto> \<lparr>window_start = t1, count = 4\<rparr>)"
  let ?b5 = "?b4(k \<mapsto> \<lparr>window_start = t1, count = 5\<rparr>)"
  let ?b6 = "?b5(k \<mapsto> \<lparr>window_start = t1, count = 6\<rparr>)"
  let ?b7 = "?b6(k \<mapsto> \<lparr>window_start = t7, count = 1\<rparr>)"
  have 1: "is_allowed t1 k 5 3600 b = (True, ?b1)"
    using is_allowed_fresh [of b k 3600 t1 5] fresh by simp
  have 2: "is_allowed t2 k 5 3600 ?b1 = (True, ?b2)"
    using is_allowed_within [of ?b1 k t1 1 t2 3600 5] within(1) by simp
  have 3: "is_allowed t3 k 5 3600 ?b2 = (True, ?b3)"
    using is_allowed_within [of ?b2 k t1 2 t3 3600 5] within(2) by simp
  have 4: "is_allowed t4 k 5 3600 ?b3 = (True, ?b4)"
    using is_allowed_within [of ?b3 k t1 3 t4 3600 5] within(3) by simp
  have 5: "is_allowed t5 k 5 3600 ?b4 = (True, ?b5)"
    using is_allowed_within [of ?b4 k t1 4 t5 3600 5] within(4) by simp
  have 6: "is_allowed t6 k 5 3600 ?b5 = (False, ?b6)"
    using is_allowed_within [of ?b5 k t1 5 t6 3600 5] within(5) by simp
  have 7: "is_allowed t7 k 5 3600 ?b6 = (True, ?b7)"
    using is_allowed_elapsed [of ?b6 k t1 6 3600 t7 5] later by simp
  have c: "calls [t1, t2, t3, t4, t5, t6, t7] k 5 3600 b =
      ([True, True, True, True, True, False, True], ?b7)"
    by (simp only: calls.simps 1 2 3 4 5 6 7 prod.case)
  have d: "SecurityMiddleware_dispatch (is_allowed now) request call_next (b0, s) =
              (JSONResponse 429 ''Rate limit exceeded'', (b', s)) \<and>
            rs_status (JSONResponse 429 ''Rate limit exceeded'') = 429"
    if "rate_tier (rq_path request) = (m, w)"
      and "is_allowed now (rq_client request) m w b0 = (False, b')"
    using dispatch_rejected [where limiter = "is_allowed now" and b = b0, OF that]
    by (simp add: JSONResponse_def)
  have e: "fst (calls [t1, t2, t3, t4, t5, t6, t7] k 5 3600 b) =
           [True, True, True, True, True, False, True]"
    by (simp only: c fst_conv)
  have f: "snd (calls [t1, t2, t3, t4, t5, t6, t7] k 5 3600 b) k =
           Some \<lparr>window_start = t7, count = 1\<rparr>"
    by (simp only: c snd_conv fun_upd_same)
  from d e f show ?thesis by blast
qed


text \<open>
  The theorem of C3 for calls at seconds 0 to 50 and at second 3600, and the sixth
  request to \<^verbatim>\<open>/auth/login\<close>.
\<close>

theorem fixed_window_rate_limit_witness:
  "fst (calls [0, 10, 20, 30, 40, 50, 3600] ''10.0.0.1'' 5 3600 Map.empty) =
     [True, True, True, True, True, False, True] \<and>
   snd (calls [0, 10, 20, 30, 40, 50, 3600] ''10.0.0.1'' 5 3600 Map.empty) ''10.0.0.1'' =
     Some \<lparr>window_start = 3600, count = 1\<rparr> \<and>
   SecurityMiddleware_dispatch (is_allowed 50) (demo_request ''POST'' ''/auth/login'' Map.empty) demo_handler
       ([''10.0.0.1'' \<mapsto> \<lparr>window_start = 0, count = 5\<rparr>], 0) =
     (JSONResponse 429 ''Rate limit exceeded'',
      ([''10.0.0.1'' \<mapsto> \<lparr>window_start = 0, count = 6\<rparr>], 0))"
proof -
  let ?rq = "demo_request ''POST'' ''/auth/login'' Map.empty"
  let ?b0 = "[''10.0.0.1'' \<mapsto> \<lparr>window_start = 0, count = 5\<rparr>]"
  let ?b1 = "[''10.0.0.1'' \<mapsto> \<lparr>window_start = 0, count = 6\<rparr>]"
  have a: "(Map.empty :: buckets) ''10.0.0.1'' = None \<or>
      (\<exists>bk. (Map.empty :: buckets) ''10.0.0.1'' = Some bk \<and> 3600 \<le> 0 - window_start bk)"
    "(10::int) - 0 < 3600" "(20::int) - 0 < 3600" "(30::int) - 0 < 3600" "(40::int) - 0 < 3600"
    "(50::int) - 0 < 3600" "(3600::int) \<le> 3600 - 0"
    by simp_all
  have b: "rate_tier (rq_path ?rq) = (5, 3600)"
    "is_allowed 50 (rq_client ?rq) 5 3600 ?b0 = (False, ?b1)"
    by (simp_all add: rate_tier_def demo_request_def is_allowed_def)
  from fixed_window_rate_limit [OF a, where request = ?rq and m = 5 and w = 3600 and now = 50
      and ?b0.0 = ?b0 and b' = ?b1 and call_next = demo_handler and s = 0] b
  show ?thesis by blast
qed

subsection \<open>Security headers\<close>

text \<open>
  Claim C4, as stated, puts the five headers on every response. The 429 that
  \<^verbatim>\<open>SecurityMiddleware.dispatch\<close> returns for a rate-limited request is returned
  before the headers are set and carries none of them.
\<close>

theorem rate_limited_response_without_headers:
  "SecurityMiddleware_dispatch (is_allowed 50) (demo_request ''POST'' ''/auth/login'' Map.empty) demo_handler
       ([''10.0.0.1'' \<mapsto> \<lparr>window_start = 0, count = 5\<rparr>], 0) =
     (JSONResponse 429 ''Rate limit exceeded'',
      ([''10.0.0.1'' \<mapsto> \<lparr>window_start = 0, count = 6\<rparr>], 0)) \<and>
   rs_headers (JSONResponse 429 ''Rate limit exceeded'') ''X-Content-Type-Options'' = None \<and>
   rs_headers (JSONResponse 429 ''Rate limit exceeded'') ''X-Frame-Options'' = None \<and>
   rs_headers (JSONResponse 429 ''Rate limit exceeded'') ''X-XSS-Protection'' = None \<and>
   rs_headers (JSONResponse 429 ''Rate limit exceeded'') ''Strict-Transport-Security'' = None \<and>
   rs_headers (JSONResponse 429 ''Rate limit exceeded'') ''Content-Security-Policy'' = None"
  by (simp add: SecurityMiddleware_dispatch_def rate_tier_def demo_request_def is_allowed_def
      JSONResponse_def)

lemma add_security_headers_values:
  "rs_headers (add_security_headers r) ''X-Content-Type-Options'' = Some ''nosniff''"
  "rs_headers (add_security_headers r) ''X-Frame-Options'' = Some ''DENY''"
  "rs_headers (add_security_headers r) ''X-XSS-Protection'' = Some ''1; mode=block''"
  "rs_headers (add_security_headers r) ''Strict-Transport-Security'' =
     Some ''max-age=31536000; includeSubDomains''"
  "rs_headers (add_security_headers r) ''Content-Security-Policy'' = Some csp_same_origin"
  "rs_status (add_security_headers r) = rs_status r"
  by (simp_all add: add_security_headers_def)

lemma json_response_headers:
  "rs_headers (JSONResponse code detail) ''X-Content-Type-Options'' = None"
  "rs_headers (JSONResponse code detail) ''X-Frame-Options'' = None"
  "rs_headers (JSONResponse code detail) ''X-XSS-Protection'' = None"
  "rs_headers (JSONResponse code detail) ''Strict-Transport-Security'' = None"
  "rs_headers (JSONResponse code detail) ''Content-Security-Policy'' = None"
  by (simp_all add: JSONResponse_def)

text \<open>
  Claim C4 (amended): whatever the route and whatever the downstream response, a
  response that \<^verbatim>\<open>SecurityMiddleware.dispatch\<close> forwards for an admitted request
  carries the five headers with their fixed values and keeps its status; the 429 for a
  rejected request carries none of the five.
\<close>

theorem security_headers_on_forwarded_responses:
  assumes "rate_tier (rq_path request) = (m, w)"
  shows "(limiter (rq_client request) m w b = (True, b') \<longrightarrow>
           rs_headers (fst (SecurityMiddleware_dispatch limiter request call_next (b, s)))
              ''X-Content-Type-Options'' = Some ''nosniff'' \<and>
           rs_headers (fst (SecurityMiddleware_dispatch limiter request call_next (b, s)))
              ''X-Frame-Options'' = Some ''DENY'' \<and>
           rs_headers (fst (SecurityMiddleware_dispatch limiter request call_next (b, s)))
              ''X-XSS-Protection'' = Some ''1; mode=block'' \<and>
           rs_headers (fst (SecurityMiddleware_dispatch limiter request call_next (b, s)))
              ''Strict-Transport-Security'' = Some ''max-age=31536000; includeSubDomains'' \<and>
           rs_headers (fst (SecurityMiddleware_dispatch limiter request call_next (b, s)))
              ''Content-Security-Policy'' = Some csp_same_origin \<and>
           rs_status (fst (SecurityMiddleware_dispatch limiter request call_next (b, s))) =
              rs_status (fst (call_next request s))) \<and>
         (limiter (rq_client request) m w b = (False, b') \<longrightarrow>
           fst (SecurityMiddleware_dispatch limiter request call_next (b, s)) =
              JSONResponse 429 ''Rate limit exceeded'' \<and>
           rs_headers (fst (SecurityMiddleware_dispatch limiter request call_next (b, s)))
              ''X-Content-Type-Options'' = None \<and>
           rs_headers (fst (SecurityMiddleware_dispatch limiter request call_next (b, s)))
              ''X-Frame-Options'' = None \<and>
           rs_headers (fst (SecurityMiddleware_dispatch limiter request call_next (b, s)))
              ''X-XSS-Protection'' = None \<and>
           rs_headers (fst (SecurityMiddleware_dispatch limiter request call_next (b, s)))
              ''Strict-Transport-Security'' = None \<and>
           rs_headers (fst (SecurityMiddleware_dispatch limiter request call_next (b, s)))
              ''Content-Security-Policy'' = None)"
proof (intro conjI impI)
  assume ok: "limiter (rq_client request) m w b = (True, b')"
  note d = dispatch_admitted [where limiter = limiter and b = b, OF assms ok, of call_next s]
  show "rs_headers (fst (SecurityMiddleware_dispatch limiter request call_next (b, s)))
      ''X-Content-Type-Options'' = Some ''nosniff''"
    by (simp only: d fst_conv add_security_headers_values)
  show "rs_headers (fst (SecurityMiddleware_dispatch limiter request call_next (b, s)))
      ''X-Frame-Options'' = Some ''DENY''"
    by (simp only: d fst_conv add_security_headers_values)
  show "rs_headers (fst (SecurityMiddleware_dispatch limiter request call_next (b, s)))
      ''X-XSS-Protection'' = Some ''1; mode=block''"
    by (simp only: d fst_conv add_security_headers_values)
  show "rs_headers (fst (SecurityMiddleware_dispatch limiter request call_next (b, s)))
      ''Strict-Transport-Security'' = Some ''max-age=31536000; includeSubDomains''"
    by (simp only: d fst_conv add_security_headers_values)
  show "rs_headers (fst (SecurityMiddleware_dispatch limiter request call_next (b, s)))
      ''Content-Security-Policy'' = Some csp_same_origin"
    by (simp only: d fst_conv add_security_headers_values)
  show "rs_status (fst (SecurityMiddleware_dispatch limiter request call_next (b, s))) =
      rs_status (fst (call_next request s))"
    by (simp only: d fst_conv add_security_headers_values)
next
  assume no: "limiter (rq_client request) m w b = (False, b')"
  note d = dispatch_rejected [where limiter = limiter and b = b, OF assms no, of call_next s]
  show "fst (SecurityMiddleware_dispatch limiter request call_next (b, s)) =
      JSONResponse 429 ''Rate limit exceeded''"
    by (simp only: d fst_conv)
  show "rs_headers (fst (SecurityMiddleware_dispatch limiter request call_next (b, s)))
      ''X-Content-Type-Options'' = None"
    by (simp only: d fst_conv json_response_headers)
  show "rs_headers (fst (SecurityMiddleware_dispatch limiter request call_next (b, s)))
      ''X-Frame-Options'' = None"
    by (simp only: d fst_conv json_response_headers)
  show "rs_headers (fst (SecurityMiddleware_dispatch limiter request call_next (b, s)))
      ''X-XSS-Protection'' = None"
    by (simp only: d fst_conv json_response_headers)
  show "rs_headers (fst (SecurityMiddleware_dispatch limiter request call_next (b, s)))
      ''Strict-Transport-Security'' = None"
    by (simp only: d fst_conv json_response_headers)
  show "rs_headers (fst (SecurityMiddleware_dispatch limiter request call_next (b, s)))
      ''Content-Security-Policy'' = None"
    by (simp only: d fst_conv json_response_headers)
qed

text \<open>
  The theorem of C4 for an admitted request to \<^verbatim>\<open>/health\<close> and a rejected one.
\<close>

theorem security_headers_on_forwarded_responses_witness:
  "rs_headers (fst (SecurityMiddleware_dispatch (is_allowed 0) (demo_request ''GET'' ''/health'' Map.empty)
      demo_handler (Map.empty, 0))) ''X-Frame-Options'' = Some ''DENY'' \<and>
   rs_headers (fst (SecurityMiddleware_dispatch (is_allowed 0) (demo_request ''GET'' ''/health'' Map.empty)
      demo_handler (Map.empty, 0))) ''Strict-Transport-Security'' =
     Some ''max-age=31536000; includeSubDomains'' \<and>
   rs_headers (fst (SecurityMiddleware_dispatch (is_allowed 50) (demo_request ''GET'' ''/auth/me'' Map.empty)
      demo_handler ([''10.0.0.1'' \<mapsto> \<lparr>window_start = 0, count = 5\<rparr>], 0)))
      ''X-Frame-Options'' = None"
proof -
  let ?rq = "demo_request ''GET'' ''/health'' Map.empty"
  let ?ra = "demo_request ''GET'' ''/auth/me'' Map.empty"
  have a: "rate_tier (rq_path ?rq) = (1000, 3600)"
    "is_allowed 0 (rq_client ?rq) 1000 3600 Map.empty =
       (True, [''10.0.0.1'' \<mapsto> \<lparr>window_start = 0, count = 1\<rparr>])"
    by (simp_all add: rate_tier_def demo_request_def is_allowed_def)
  have b: "rate_tier (rq_path ?ra) = (5, 3600)"
    "is_allowed 50 (rq_client ?ra) 5 3600 [''10.0.0.1'' \<mapsto> \<lparr>window_start = 0, count = 5\<rparr>] =
       (False, [''10.0.0.1'' \<mapsto> \<lparr>window_start = 0, count = 6\<rparr>])"
    by (simp_all add: rate_tier_def demo_request_def is_allowed_def)
  from security_headers_on_forwarded_responses [OF a(1), where call_next = demo_handler
      and s = 0 and limiter = "is_allowed 0" and b = Map.empty] a(2)
  have 1: "rs_headers (fst (SecurityMiddleware_dispatch (is_allowed 0) ?rq demo_handler (Map.empty, 0)))
      ''X-Frame-Options'' = Some ''DENY'' \<and>
    rs_headers (fst (SecurityMiddleware_dispatch (is_allowed 0) ?rq demo_handler (Map.empty, 0)))
      ''Strict-Transport-Security'' = Some ''max-age=31536000; includeSubDomains''"
    by blast
  from security_headers_on_forwarded_responses [OF b(1), where call_next = demo_handler
      and s = 0 and limiter = "is_allowed 50" and b = "[''10.0.0.1'' \<mapsto> \<lparr>window_start = 0, count = 5\<rparr>]"] b(2)
  have 2: "rs_headers (fst (SecurityMiddleware_dispatch (is_allowed 50) ?ra demo_handler
      ([''10.0.0.1'' \<mapsto> \<lparr>window_start = 0, count = 5\<rparr>], 0))) ''X-Frame-Options'' = None"
    by blast
  from 1 2 show ?thesis by blast
qed

section \<open>Properties of settings and tokens\<close>

lemma verify_fresh_token:
  "verify_token sign key now' (create_access_token sign key now subject ttl) =
     (if now + ttl < now' then Inl TokenExpired else Inr subject)"
  by (simp add: verify_token_def create_access_token_def Let_def)

lemma login_InrD:
  assumes "login st sign vp now users name pw = Inr resp"
  shows "\<exists>u\<in>set users. u_email u = name \<and> tr_user resp = u \<and>
           access_token resp =
             create_access_token sign (secret_key st) now (u_email u)
               (60 * access_token_expire_minutes st) \<and>
           expires_in resp = access_token_expire_minutes st * 60"
proof (cases "find (\<lambda>u. u_email u = name) users")
  case None
  with assms show ?thesis by (simp add: login_def)
next
  case (Some u)
  then have "u \<in> set users" "u_email u = name"
    by (auto simp: find_Some_iff)
  with assms Some show ?thesis
    by (auto simp: login_def Let_def split: if_splits)
qed

lemma Settings_init_default_minutes:
  assumes "Settings_init to_int env dotenv = Inr st"
    and "env_lookup env dotenv ''access_token_expire_minutes'' = None"
  shows "access_token_expire_minutes st = 30"
  using assms by (auto simp: Settings_init_def Let_def split: if_splits option.splits)

text \<open>
  Claim C8: for a positive time to live, a token verified at the moment of issue yields
  its subject, and verified one second after its expiry fails with
  \<^verbatim>\<open>TokenExpired\<close>. Without an override the settings give 30 minutes: a login
  reports 1800 seconds and its token is accepted up to second 1800 and expired after.
\<close>

theorem token_round_trip_and_expiry:
  assumes "0 < ttl"
  shows "(\<exists>tok. issue sign (Some key) t subject ttl = Inr tok \<and>
            verify_token sign key t tok = Inr subject \<and>
            verify_token sign key (t + ttl + 1) tok = Inl TokenExpired) \<and>
         (Settings_init to_int env dotenv = Inr st \<longrightarrow>
            env_lookup env dotenv ''access_token_expire_minutes'' = None \<longrightarrow>
            access_token_expire_minutes st = 30 \<and>
            (\<forall>resp. login st sign vp now users name pw = Inr resp \<longrightarrow>
               expires_in resp = 1800 \<and>
               verify_token sign (secret_key st) now (access_token resp) = Inr name \<and>
               verify_token sign (secret_key st) (now + 1800) (access_token resp) = Inr name \<and>
               verify_token sign (secret_key st) (now + 1801) (access_token resp) =
                 Inl TokenExpired))"
proof (intro conjI impI allI)
  show "\<exists>tok. issue sign (Some key) t subject ttl = Inr tok \<and>
            verify_token sign key t tok = Inr subject \<and>
            verify_token sign key (t + ttl + 1) tok = Inl TokenExpired"
    using assms by (simp add: issue_def verify_fresh_token)
next
  assume "Settings_init to_int env dotenv = Inr st"
    and "env_lookup env dotenv ''access_token_expire_minutes'' = None"
  then show "access_token_expire_minutes st = 30"
    by (rule Settings_init_default_minutes)
next
  fix resp
  assume s: "Settings_init to_int env dotenv = Inr st"
    "env_lookup env dotenv ''access_token_expire_minutes'' = None"
    and l: "login st sign vp now users name pw = Inr resp"
  have m: "access_token_expire_minutes st = 30"
    using s by (rule Settings_init_default_minutes)
  from login_InrD [OF l] m
  have tok: "access_token resp = create_access_token sign (secret_key st) now name 1800"
    and ex: "expires_in resp = 1800"
    by auto
  show "expires_in resp = 1800" by (rule ex)
  show "verify_token sign (secret_key st) now (access_token resp) = Inr name"
    by (simp add: tok verify_fresh_token)
  show "verify_token sign (secret_key st) (now + 1800) (access_token resp) = Inr name"
    by (simp add: tok verify_fresh_token)
  show "verify_token sign (secret_key st) (now + 1801) (access_token resp) = Inl TokenExpired"
    by (simp add: tok verify_fresh_token)
qed

lemma demo_settings_init:
  "Settings_init (\<lambda>v. None) demo_env [] = Inr demo_settings"
  by (simp add: Settings_init_def env_lookup_def dotenv_extras_def demo_env_def demo_settings_def
      Let_def)

text \<open>
  The theorem of C8 for a token of 60 seconds and a login under the default settings.
\<close>

theorem token_round_trip_and_expiry_witness:
  "(\<exists>tok. issue demo_sign (Some ''k1'') 1000 ''user@example.org'' 60 = Inr tok \<and>
      verify_token demo_sign ''k1'' 1000 tok = Inr ''user@example.org'' \<and>
      verify_token demo_sign ''k1'' (1000 + 60 + 1) tok = Inl TokenExpired) \<and>
   access_token_expire_minutes demo_settings = 30 \<and>
   expires_in \<lparr>access_token = create_access_token demo_sign ''k1'' 1000 ''user@example.org'' 1800,
       token_type = ''bearer'', expires_in = 1800, tr_user = demo_user 5 (Some PATIENT)\<rparr> = 1800"
proof -
  let ?resp = "\<lparr>access_token = create_access_token demo_sign ''k1'' 1000 ''user@example.org'' 1800,
       token_type = ''bearer'', expires_in = 1800, tr_user = demo_user 5 (Some PATIENT)\<rparr>"
  have a: "(0::int) < 60" by simp
  have b: "env_lookup demo_env [] ''access_token_expire_minutes'' = None"
    by (simp add: env_lookup_def demo_env_def)
  have c: "login demo_settings demo_sign (\<lambda>p h. True) 1000 [demo_user 5 (Some PATIENT)]
      ''user@example.org'' ''pw'' = Inr ?resp"
    by (simp add: login_def demo_settings_def demo_user_def Let_def)
  from token_round_trip_and_expiry [OF a, where sign = demo_sign and key = "''k1''" and t = 1000
      and subject = "''user@example.org''" and to_int = "\<lambda>v. None" and env = demo_env
      and dotenv = "[]" and st = demo_settings and vp = "\<lambda>p h. True" and now = 1000
      and users = "[demo_user 5 (Some PATIENT)]" and name = "''user@example.org''"
      and pw = "''pw''"]
    demo_settings_init b c
  show ?thesis by blast
qed

subsection \<open>Settings\<close>

lemma Settings_init_missing_key:
  assumes "env_lookup env dotenv ''secret_key'' = None"
  shows "\<exists>errs. Settings_init to_int env dotenv = Inl (ValidationError errs) \<and>
           ''secret_key'' \<in> set errs"
  using assms by (auto simp: Settings_init_def Let_def split: option.splits)

lemma dotenv_extras_none:
  assumes "\<forall>entry\<in>set dotenv. fst entry \<in> set settings_fields"
  shows "dotenv_extras dotenv = []"
  using assms by (auto simp: dotenv_extras_def filter_empty_conv)

lemma Settings_init_complete:
  assumes "env_lookup env dotenv ''secret_key'' = Some k"
    and "env_lookup env dotenv ''database_url'' = Some d"
    and "env_lookup env dotenv ''access_token_expire_minutes'' = None \<or>
         (\<exists>v n. env_lookup env dotenv ''access_token_expire_minutes'' = Some v \<and> to_int v = Some n)"
    and "dotenv_extras dotenv = []"
  shows "\<exists>st. Settings_init to_int env dotenv = Inr st \<and> secret_key st = k \<and>
           database_url st = d"
  using assms by (auto simp: Settings_init_def Let_def)

text \<open>
  Claim C10, as stated, lets the settings be constructed whenever a secret key is
  present. \<^verbatim>\<open>database_url\<close> is required as well: with the key alone the
  construction fails and the process does not start. And with both present, an entry
  of the \<^verbatim>\<open>.env\<close> file under an undeclared name makes the construction fail too.
\<close>

theorem settings_need_more_than_the_key:
  "env_lookup [(''secret_key'', ''k1'')] [] ''secret_key'' = Some ''k1'' \<and>
   Settings_init (\<lambda>v. None) [(''secret_key'', ''k1'')] [] =
     Inl (ValidationError [''database_url'']) \<and>
   startup (\<lambda>v. None) [(''secret_key'', ''k1'')] [] =
     Crashed (ValidationError [''database_url'']) \<and>
   env_lookup demo_env [(''debug'', ''true'')] ''secret_key'' = Some ''k1'' \<and>
   Settings_init (\<lambda>v. None) demo_env [(''debug'', ''true'')] =
     Inl (ValidationError [''debug'']) \<and>
   startup (\<lambda>v. None) demo_env [(''debug'', ''true'')] = Crashed (ValidationError [''debug''])"
  by (simp add: Settings_init_def startup_def env_lookup_def dotenv_extras_def
      settings_fields_def demo_env_def Let_def)

text \<open>
  Claim C10 (amended): without a secret key in the environment and in the
  \<^verbatim>\<open>.env\<close> file the construction of the settings fails, naming the field, and
  the process ends at start-up before anything is served. With a secret key and a
  database URL present, an expiry override that converts to an integer if one is given,
  and no entry of the \<^verbatim>\<open>.env\<close> file under an undeclared name, the construction
  succeeds with that key, and a token issued at login is signed with that key.
\<close>

theorem settings_fail_fast:
  "(env_lookup env dotenv ''secret_key'' = None \<longrightarrow>
      (\<exists>errs. Settings_init to_int env dotenv = Inl (ValidationError errs) \<and>
               ''secret_key'' \<in> set errs \<and>
               startup to_int env dotenv = Crashed (ValidationError errs))) \<and>
   (env_lookup env dotenv ''secret_key'' = Some k \<longrightarrow>
    env_lookup env dotenv ''database_url'' = Some d \<longrightarrow>
    (env_lookup env dotenv ''access_token_expire_minutes'' = None \<or>
     (\<exists>v n. env_lookup env dotenv ''access_token_expire_minutes'' = Some v \<and> to_int v = Some n)) \<longrightarrow>
    (\<forall>entry\<in>set dotenv. fst entry \<in> set settings_fields) \<longrightarrow>
      (\<exists>st. Settings_init to_int env dotenv = Inr st \<and> secret_key st = k \<and>
            (\<forall>resp. login st sign vp now users name pw = Inr resp \<longrightarrow>
               (\<exists>payload. access_token resp = Encoded payload (sign k payload) \<and>
                          tk_subject payload = name))))"
proof (intro conjI impI)
  assume "env_lookup env dotenv ''secret_key'' = None"
  from Settings_init_missing_key [OF this, of to_int]
  show "\<exists>errs. Settings_init to_int env dotenv = Inl (ValidationError errs) \<and>
               ''secret_key'' \<in> set errs \<and>
               startup to_int env dotenv = Crashed (ValidationError errs)"
    by (auto simp: startup_def)
next
  assume k: "env_lookup env dotenv ''secret_key'' = Some k"
    and d: "env_lookup env dotenv ''database_url'' = Some d"
    and m: "env_lookup env dotenv ''access_token_expire_minutes'' = None \<or>
     (\<exists>v n. env_lookup env dotenv ''access_token_expire_minutes'' = Some v \<and> to_int v = Some n)"
    and x: "\<forall>entry\<in>set dotenv. fst entry \<in> set settings_fields"
  from Settings_init_complete [OF k d m dotenv_extras_none [OF x]]
  obtain st where st: "Settings_init to_int env dotenv = Inr st" "secret_key st = k"
    by blast
  have "\<exists>payload. access_token resp = Encoded payload (sign k payload) \<and> tk_subject payload = name"
    if "login st sign vp now users name pw = Inr resp" for resp
    using login_InrD [OF that] st(2) by (auto simp: create_access_token_def Let_def)
  with st show "\<exists>st. Settings_init to_int env dotenv = Inr st \<and> secret_key st = k \<and>
            (\<forall>resp. login st sign vp now users name pw = Inr resp \<longrightarrow>
               (\<exists>payload. access_token resp = Encoded payload (sign k payload) \<and>
                          tk_subject payload = name))"
    by blast
qed

text \<open>
  The theorem of C10 for an environment without the key and for one with key and
  database URL and a \<^verbatim>\<open>.env\<close> file that sets the algorithm.
\<close>

theorem settings_fail_fast_witness:
  "(\<exists>errs. startup (\<lambda>v. None) [(''database_url'', ''sqlite:///app.db'')] [] =
      Crashed (ValidationError errs) \<and> ''secret_key'' \<in> set errs) \<and>
   (\<exists>st. Settings_init (\<lambda>v. None) demo_env [(''algorithm'', ''HS512'')] = Inr st \<and>
      secret_key st = ''k1'')"
proof -
  have a: "env_lookup [(''database_url'', ''sqlite:///app.db'')] [] ''secret_key'' = None"
    by (simp add: env_lookup_def)
  have b: "env_lookup demo_env [(''algorithm'', ''HS512'')] ''secret_key'' = Some ''k1''"
    "env_lookup demo_env [(''algorithm'', ''HS512'')] ''database_url'' = Some ''sqlite:///app.db''"
    "env_lookup demo_env [(''algorithm'', ''HS512'')] ''access_token_expire_minutes'' = None"
    "\<forall>entry\<in>set [(''algorithm'', ''HS512'')]. fst entry \<in> set settings_fields"
    by (simp_all add: env_lookup_def demo_env_def settings_fields_def)
  from settings_fail_fast [where env = "[(''database_url'', ''sqlite:///app.db'')]"
      and dotenv = "[]" and to_int = "\<lambda>v. None"] a
  have 1: "\<exists>errs. startup (\<lambda>v. None) [(''database_url'', ''sqlite:///app.db'')] [] =
      Crashed (ValidationError errs) \<and> ''secret_key'' \<in> set errs"
    by blast
  from settings_fail_fast [where env = demo_env and dotenv = "[(''algorithm'', ''HS512'')]"
      and to_int = "\<lambda>v. None" and k = "''k1''" and d = "''sqlite:///app.db''"] b
  have 2: "\<exists>st. Settings_init (\<lambda>v. None) demo_env [(''algorithm'', ''HS512'')] = Inr st \<and>
      secret_key st = ''k1''"
    by blast
  from 1 2 show ?thesis by blast
qed

end
